theory Spec2Isabelle
  imports Main "HOL-Library.Word" "HOL-Library.Signed_Division"
begin

unbundle bit_operations_syntax

section \<open>Machine types\<close>

text \<open>
  The C \<open>int\<close> and \<open>uint32_t\<close> of the source are both 32-bit words: arithmetic wraps, a
  signed reading is \<open>sint\<close>, a signed comparison is \<open><s\<close>. A conversion between
  \<open>int\<close> and \<open>uint32_t\<close> keeps the bits, so it is the identity on the word. Pointers are
  addresses, \<open>0\<close> is the null pointer.
\<close>

type_synonym int32 = "32 word"
type_synonym uint32 = "32 word"
type_synonym uint64 = "64 word"
type_synonym ptr = nat

abbreviation NULL :: ptr where
  "NULL \<equiv> 0"

text \<open>Division of two C \<open>int\<close>s: the quotient is truncated towards zero.\<close>

definition c_div :: "int32 \<Rightarrow> int32 \<Rightarrow> int32" where
  "c_div a b = word_of_int (sint a sdiv sint b)"

section \<open>Constants of the platform headers\<close>

text \<open>
  The values below come from headers that the source includes:
  \<open>system/graphics.h\<close> (pixel formats), \<open>hardware/gralloc.h\<close> (usage bits), \<open>gbm.h\<close>
  (backend formats, binding and transfer flags) and \<open>errno.h\<close>.
\<close>

definition HAL_PIXEL_FORMAT_RGBA_8888 :: int32 where "HAL_PIXEL_FORMAT_RGBA_8888 = 1"
definition HAL_PIXEL_FORMAT_RGBX_8888 :: int32 where "HAL_PIXEL_FORMAT_RGBX_8888 = 2"
definition HAL_PIXEL_FORMAT_RGB_888 :: int32 where "HAL_PIXEL_FORMAT_RGB_888 = 3"
definition HAL_PIXEL_FORMAT_RGB_565 :: int32 where "HAL_PIXEL_FORMAT_RGB_565 = 4"
definition HAL_PIXEL_FORMAT_BGRA_8888 :: int32 where "HAL_PIXEL_FORMAT_BGRA_8888 = 5"
definition HAL_PIXEL_FORMAT_YV12 :: int32 where "HAL_PIXEL_FORMAT_YV12 = 0x32315659"

definition GBM_FORMAT_ABGR8888 :: uint32 where "GBM_FORMAT_ABGR8888 = 0x34324241"
definition GBM_FORMAT_XBGR8888 :: uint32 where "GBM_FORMAT_XBGR8888 = 0x34324258"
definition GBM_FORMAT_RGB888 :: uint32 where "GBM_FORMAT_RGB888 = 0x34324752"
definition GBM_FORMAT_RGB565 :: uint32 where "GBM_FORMAT_RGB565 = 0x36314752"
definition GBM_FORMAT_ARGB8888 :: uint32 where "GBM_FORMAT_ARGB8888 = 0x34325241"
definition GBM_FORMAT_GR88 :: uint32 where "GBM_FORMAT_GR88 = 0x38385247"

definition GBM_BO_USE_SCANOUT :: uint32 where "GBM_BO_USE_SCANOUT = 1"
definition GBM_BO_USE_CURSOR :: uint32 where "GBM_BO_USE_CURSOR = 2"
definition GBM_BO_USE_RENDERING :: uint32 where "GBM_BO_USE_RENDERING = 4"
definition GBM_BO_USE_LINEAR :: uint32 where "GBM_BO_USE_LINEAR = 16"

definition GBM_BO_TRANSFER_READ :: uint32 where "GBM_BO_TRANSFER_READ = 1"
definition GBM_BO_TRANSFER_WRITE :: uint32 where "GBM_BO_TRANSFER_WRITE = 2"

definition GRALLOC_USAGE_SW_READ_OFTEN :: int32 where "GRALLOC_USAGE_SW_READ_OFTEN = 0x3"
definition GRALLOC_USAGE_SW_READ_MASK :: int32 where "GRALLOC_USAGE_SW_READ_MASK = 0xF"
definition GRALLOC_USAGE_SW_WRITE_OFTEN :: int32 where "GRALLOC_USAGE_SW_WRITE_OFTEN = 0x30"
definition GRALLOC_USAGE_SW_WRITE_MASK :: int32 where "GRALLOC_USAGE_SW_WRITE_MASK = 0xF0"
definition GRALLOC_USAGE_HW_TEXTURE :: int32 where "GRALLOC_USAGE_HW_TEXTURE = 0x100"
definition GRALLOC_USAGE_HW_RENDER :: int32 where "GRALLOC_USAGE_HW_RENDER = 0x200"
definition GRALLOC_USAGE_HW_FB :: int32 where "GRALLOC_USAGE_HW_FB = 0x1000"
definition GRALLOC_USAGE_CURSOR :: int32 where "GRALLOC_USAGE_CURSOR = 0x8000"

definition EINVAL :: int32 where "EINVAL = 22"
definition ENOMEM :: int32 where "ENOMEM = 12"

section \<open>Data model\<close>

text \<open>\<open>struct gralloc_gbm_bo_t\<close> (source lines 49-55).\<close>

record gralloc_gbm_bo_t =
  bo :: ptr
  map_data :: ptr
  lock_count :: int32
  locked_for :: int32

text \<open>
  \<open>struct gralloc_gbm_handle_t\<close>, the descriptor. Its declaration is in
  \<open>gralloc_drm_handle.h\<close>; the fields are those the source reads and writes. The
  \<open>native_handle_t\<close> header (\<open>base.version\<close>, \<open>base.numInts\<close>, \<open>base.numFds\<close>), which
  \<open>create_bo_handle\<close> fills and no function of the source reads, is left out.
\<close>

record gralloc_gbm_handle_t =
  magic :: int32
  width :: int32
  height :: int32
  format :: int32
  usage :: int32
  prime_fd :: int32
  stride :: uint32
  modifier :: uint64
  data_owner :: int32
  data :: ptr

text \<open>
  \<open>struct gbm_import_fd_modifier_data\<close> of \<open>gbm.h\<close>, as far as \<open>gbm_import\<close> fills
  it (the variant without \<open>GBM_BO_IMPORT_FD_MODIFIER\<close> has no modifier and no fd count).
  Width, height and format are \<open>uint32_t\<close> there.
\<close>

record gbm_import_fd_modifier_data =
  data_width :: uint32
  data_height :: uint32
  data_format :: uint32
  data_num_fds :: uint32
  data_fd :: int32
  data_stride :: uint32
  data_modifier :: uint64

text \<open>The calls made to the backend library, in the order they are made.\<close>

datatype gbm_call =
  Bo_create ptr uint32 uint32 uint32 uint32
  | Bo_import ptr gbm_import_fd_modifier_data
  | Bo_map ptr uint32 uint32 uint32 uint32 uint32
  | Bo_unmap ptr ptr
  | Bo_destroy ptr

text \<open>
  The process state of the module: the static \<open>gralloc_gbm_pid\<close>, the objects made by
  \<open>new\<close> (a store from addresses to objects, with the next address \<open>new\<close> gives out),
  and the backend calls made so far.
\<close>

record gralloc_state =
  gralloc_gbm_pid :: int32
  heap :: "ptr \<rightharpoonup> gralloc_gbm_bo_t"
  next_ptr :: ptr
  trace :: "gbm_call list"

text \<open>
  The world outside the module: the identity of the process and the backend library.
  Each backend function sees the calls made before it, so its answers may change over
  time. \<open>gbm_bo_map\<close> also gets the current content of the \<open>map_data\<close> cell it may write
  and answers with the returned address, the stride and the new content of that cell.
\<close>

record gbm_backend =
  getpid :: int32
  gbm_bo_create :: "gbm_call list \<Rightarrow> ptr \<Rightarrow> uint32 \<Rightarrow> uint32 \<Rightarrow> uint32 \<Rightarrow> uint32 \<Rightarrow> ptr"
  gbm_bo_import :: "gbm_call list \<Rightarrow> ptr \<Rightarrow> gbm_import_fd_modifier_data \<Rightarrow> ptr"
  gbm_bo_get_fd :: "gbm_call list \<Rightarrow> ptr \<Rightarrow> int32"
  gbm_bo_get_stride :: "gbm_call list \<Rightarrow> ptr \<Rightarrow> uint32"
  gbm_bo_get_modifier :: "gbm_call list \<Rightarrow> ptr \<Rightarrow> uint64"
  gbm_bo_map :: "gbm_call list \<Rightarrow> ptr \<Rightarrow> uint32 \<Rightarrow> uint32 \<Rightarrow> uint32 \<Rightarrow> uint32 \<Rightarrow> uint32
                 \<Rightarrow> ptr \<Rightarrow> ptr \<times> uint32 \<times> ptr"

text \<open>
  Reading an object through a pointer. A null or dangling pointer has no object: the
  functions below then have no defined result (\<open>None\<close>).
\<close>

definition deref :: "gralloc_state \<Rightarrow> ptr \<Rightarrow> gralloc_gbm_bo_t option" where
  "deref st p = (if p = NULL then None else heap st p)"

text \<open>
  \<open>new struct gralloc_gbm_bo_t()\<close>: a value-initialised object at the next address.
  The null check after \<open>new\<close> in the source never fires.
\<close>

definition new_bo :: "gralloc_state \<Rightarrow> ptr \<times> gralloc_state" where
  "new_bo st =
     (next_ptr st,
      st\<lparr>heap := (heap st)(next_ptr st \<mapsto> \<lparr>bo = NULL, map_data = NULL, lock_count = 0, locked_for = 0\<rparr>),
         next_ptr := Suc (next_ptr st)\<rparr>)"

definition delete_bo :: "gralloc_state \<Rightarrow> ptr \<Rightarrow> gralloc_state" where
  "delete_bo st p = st\<lparr>heap := (heap st)(p := None)\<rparr>"

definition GRALLOC_GBM_HANDLE_MAGIC :: int32 where
  \<comment> \<open>Modelled from the spec: the magic constant that identifies a descriptor of this
      module, declared in \<open>gralloc_drm_handle.h\<close>, which is not among the sources. The
      spec does not give its value; no property below depends on it.\<close>
  "GRALLOC_GBM_HANDLE_MAGIC = 0x5f47424d"

definition gralloc_gbm_handle :: "gralloc_gbm_handle_t option \<Rightarrow> gralloc_gbm_handle_t option" where
  \<comment> \<open>Modelled from the spec: the inline function \<open>gralloc_gbm_handle\<close> of
      \<open>gralloc_drm_handle.h\<close>, which is not among the sources. Receiving code validates
      the magic constant before trusting any other field; a null handle stays null.\<close>
  "gralloc_gbm_handle h =
     (case h of
        None \<Rightarrow> None
      | Some d \<Rightarrow> if magic d = GRALLOC_GBM_HANDLE_MAGIC then Some d else None)"

section \<open>Format and usage translation\<close>

text \<open>Source lines 59-91.\<close>

definition get_gbm_format :: "int32 \<Rightarrow> uint32" where
  "get_gbm_format fmt =
     (if fmt = HAL_PIXEL_FORMAT_RGBA_8888 then GBM_FORMAT_ABGR8888
      else if fmt = HAL_PIXEL_FORMAT_RGBX_8888 then GBM_FORMAT_XBGR8888
      else if fmt = HAL_PIXEL_FORMAT_RGB_888 then GBM_FORMAT_RGB888
      else if fmt = HAL_PIXEL_FORMAT_RGB_565 then GBM_FORMAT_RGB565
      else if fmt = HAL_PIXEL_FORMAT_BGRA_8888 then GBM_FORMAT_ARGB8888
      else if fmt = HAL_PIXEL_FORMAT_YV12 then GBM_FORMAT_GR88
      else 0)"

text \<open>Source lines 93-107. The cursor branch is an empty statement.\<close>

definition get_pipe_bind :: "int32 \<Rightarrow> uint32" where
  "get_pipe_bind u =
     (let bind0 = (0 :: uint32);
          bind1 = (if u AND (GRALLOC_USAGE_SW_READ_OFTEN OR GRALLOC_USAGE_SW_WRITE_OFTEN) \<noteq> 0
                   then bind0 OR GBM_BO_USE_LINEAR else bind0);
          bind2 = (if u AND GRALLOC_USAGE_CURSOR \<noteq> 0 then bind1 else bind1);
          bind3 = (if u AND (GRALLOC_USAGE_HW_RENDER OR GRALLOC_USAGE_HW_TEXTURE) \<noteq> 0
                   then bind2 OR GBM_BO_USE_RENDERING else bind2);
          bind4 = (if u AND GRALLOC_USAGE_HW_FB \<noteq> 0
                   then bind3 OR GBM_BO_USE_SCANOUT else bind3)
      in bind4)"

section \<open>Physical geometry\<close>

text \<open>
  The size \<open>gbm_alloc\<close> passes to \<open>gbm_bo_create\<close> (source lines 171-187): computed in
  \<open>int\<close>, with the cursor clamp first.
\<close>

definition gbm_alloc_size :: "gralloc_gbm_handle_t \<Rightarrow> uint32 \<times> uint32" where
  "gbm_alloc_size handle =
     (let bind = get_pipe_bind (usage handle);
          width0 = width handle;
          height0 = height handle;
          width1 = (if bind AND GBM_BO_USE_CURSOR \<noteq> 0 \<and> width handle <s 64 then 64 else width0);
          height1 = (if bind AND GBM_BO_USE_CURSOR \<noteq> 0 \<and> height handle <s 64 then 64 else height0)
      in if format handle = HAL_PIXEL_FORMAT_YV12
         then (c_div width1 2, height1 + c_div (height handle) 2)
         else (width1, height1))"

text \<open>
  The size \<open>gbm_import\<close> stores in the import data (source lines 130-137): the fields
  are \<open>uint32_t\<close>, so the width is halved by an unsigned division, while
  \<open>handle->height / 2\<close> is still a division of \<open>int\<close>s.
\<close>

definition gbm_import_size :: "gralloc_gbm_handle_t \<Rightarrow> uint32 \<times> uint32" where
  "gbm_import_size handle =
     (let width0 = width handle;
          height0 = height handle
      in if format handle = HAL_PIXEL_FORMAT_YV12
         then (width0 div 2, height0 + c_div (height handle) 2)
         else (width0, height0))"

text \<open>
  The corner \<open>(x + w, y + h)\<close> that \<open>gbm_map\<close> passes to \<open>gbm_bo_map\<close> (source lines
  245-255), computed in \<open>int\<close> from the rectangle of the lock request.
\<close>

definition gbm_map_size :: "int32 \<Rightarrow> int32 \<Rightarrow> int32 \<Rightarrow> int32 \<Rightarrow> int32 \<Rightarrow> uint32 \<times> uint32" where
  "gbm_map_size fmt x y w h =
     (let (w1, h1) = (if fmt = HAL_PIXEL_FORMAT_YV12 then (c_div w 2, h + c_div h 2) else (w, h))
      in (x + w1, y + h1))"

section \<open>The buffer-object engine\<close>

text \<open>
  \<open>gbm_import\<close> (source lines 109-155). The result is the pointer returned and the new
  state. When the backend refuses, the object made by \<open>new\<close> is deleted again.
\<close>

definition gbm_import :: "gbm_backend \<Rightarrow> gralloc_state \<Rightarrow> ptr \<Rightarrow> gralloc_gbm_handle_t
    \<Rightarrow> ptr \<times> gralloc_state" where
  "gbm_import be st gbm handle =
     (let fmt = get_gbm_format (format handle)
      in if prime_fd handle <s 0 then (NULL, st)
         else
           let (buf, st1) = new_bo st;
               d = \<lparr>data_width = fst (gbm_import_size handle),
                    data_height = snd (gbm_import_size handle),
                    data_format = fmt,
                    data_num_fds = 1,
                    data_fd = prime_fd handle,
                    data_stride = stride handle,
                    data_modifier = modifier handle\<rparr>;
               b = gbm_bo_import be (trace st1) gbm d;
               st2 = st1\<lparr>trace := trace st1 @ [Bo_import gbm d]\<rparr>
           in if b = NULL then (NULL, delete_bo st2 buf)
              else (buf, st2\<lparr>heap := (heap st2)(buf \<mapsto>
                      \<lparr>bo = b, map_data = NULL, lock_count = 0, locked_for = 0\<rparr>)\<rparr>))"

text \<open>
  \<open>gbm_alloc\<close> (source lines 157-206). It returns the pointer, the descriptor with the
  file descriptor, stride and modifier filled in, and the new state.
\<close>

definition gbm_alloc :: "gbm_backend \<Rightarrow> gralloc_state \<Rightarrow> ptr \<Rightarrow> gralloc_gbm_handle_t
    \<Rightarrow> ptr \<times> gralloc_gbm_handle_t \<times> gralloc_state" where
  "gbm_alloc be st gbm handle =
     (let fmt = get_gbm_format (format handle);
          bind = get_pipe_bind (usage handle);
          (buf, st1) = new_bo st;
          (w1, h1) = gbm_alloc_size handle;
          b = gbm_bo_create be (trace st1) gbm w1 h1 fmt bind;
          st2 = st1\<lparr>trace := trace st1 @ [Bo_create gbm w1 h1 fmt bind]\<rparr>
      in if b = NULL then (NULL, handle, delete_bo st2 buf)
         else (buf,
               handle\<lparr>prime_fd := gbm_bo_get_fd be (trace st2) b,
                      stride := gbm_bo_get_stride be (trace st2) b,
                      modifier := gbm_bo_get_modifier be (trace st2) b\<rparr>,
               st2\<lparr>heap := (heap st2)(buf \<mapsto>
                      \<lparr>bo = b, map_data = NULL, lock_count = 0, locked_for = 0\<rparr>)\<rparr>))"

text \<open>\<open>gbm_free\<close> (source lines 208-212).\<close>

definition gbm_free :: "gralloc_state \<Rightarrow> ptr \<Rightarrow> gralloc_state option" where
  "gbm_free st p =
     (case deref st p of
        None \<Rightarrow> None
      | Some b \<Rightarrow> Some (delete_bo (st\<lparr>trace := trace st @ [Bo_destroy (bo b)]\<rparr>) p))"

text \<open>\<open>gralloc_gbm_bo_from_handle\<close> (source lines 217-231): it asks \<open>getpid\<close> itself.\<close>

definition gralloc_gbm_bo_from_handle :: "gbm_backend \<Rightarrow> gralloc_gbm_handle_t option \<Rightarrow> ptr" where
  "gralloc_gbm_bo_from_handle be handle =
     (let pid = getpid be
      in case gralloc_gbm_handle handle of
           None \<Rightarrow> NULL
         | Some gbm_handle \<Rightarrow> if data_owner gbm_handle = pid then data gbm_handle else NULL)"

text \<open>
  \<open>gbm_map\<close> (source lines 233-263). The result is the error code, the content of
  \<open>*addr\<close> (given as \<open>addr\<close> on entry) and the new state. The \<open>assert\<close> on the stride
  passes a \<open>gralloc_gbm_bo_t\<close> where \<open>gbm_bo_get_stride\<close> takes a \<open>gbm_bo\<close>, so the
  source only compiles with assertions disabled: it is no statement here.
\<close>

definition gbm_map :: "gbm_backend \<Rightarrow> gralloc_state \<Rightarrow> gralloc_gbm_handle_t option
    \<Rightarrow> int32 \<Rightarrow> int32 \<Rightarrow> int32 \<Rightarrow> int32 \<Rightarrow> int32 \<Rightarrow> ptr
    \<Rightarrow> (int32 \<times> ptr \<times> gralloc_state) option" where
  "gbm_map be st handle x y w h enable_write addr =
     (let flags0 = GBM_BO_TRANSFER_READ;
          p = gralloc_gbm_bo_from_handle be handle
      in case deref st p of
           None \<Rightarrow> None
         | Some b \<Rightarrow>
             if map_data b \<noteq> NULL then Some (- EINVAL, addr, st)
             else
               (case gralloc_gbm_handle handle of
                  None \<Rightarrow> None
                | Some gbm_handle \<Rightarrow>
                    let (x1, y1) = gbm_map_size (format gbm_handle) x y w h;
                        flags = (if enable_write \<noteq> 0 then flags0 OR GBM_BO_TRANSFER_WRITE else flags0);
                        (a, strd, md) = gbm_bo_map be (trace st) (bo b) 0 0 x1 y1 flags (map_data b);
                        st1 = st\<lparr>heap := (heap st)(p \<mapsto> b\<lparr>map_data := md\<rparr>),
                                 trace := trace st @ [Bo_map (bo b) 0 0 x1 y1 flags]\<rparr>
                    in if a = NULL then Some (- ENOMEM, a, st1) else Some (0, a, st1)))"

text \<open>\<open>gbm_unmap\<close> (source lines 265-269).\<close>

definition gbm_unmap :: "gralloc_state \<Rightarrow> ptr \<Rightarrow> gralloc_state option" where
  "gbm_unmap st p =
     (case deref st p of
        None \<Rightarrow> None
      | Some b \<Rightarrow> Some (st\<lparr>heap := (heap st)(p \<mapsto> b\<lparr>map_data := NULL\<rparr>),
                          trace := trace st @ [Bo_unmap (bo b) (map_data b)]\<rparr>))"

section \<open>The handle registry\<close>

text \<open>\<open>gralloc_gbm_get_pid\<close> (source lines 304-310): the memoised process identifier.\<close>

definition gralloc_gbm_get_pid :: "gbm_backend \<Rightarrow> gralloc_state \<Rightarrow> int32 \<times> gralloc_state" where
  "gralloc_gbm_get_pid be st =
     (let st1 = (if gralloc_gbm_pid st = 0 then st\<lparr>gralloc_gbm_pid := getpid be\<rparr> else st)
      in (gralloc_gbm_pid st1, st1))"

text \<open>
  \<open>validate_handle\<close> (source lines 315-341). \<open>gbm\<close> is the backend context, null for
  "check only"; \<open>handle0\<close> is the \<open>_handle\<close> of the source. The result is the pointer, the descriptor as the call leaves it, and
  the new state.
\<close>

definition validate_handle :: "gbm_backend \<Rightarrow> gralloc_state \<Rightarrow> gralloc_gbm_handle_t option \<Rightarrow> ptr
    \<Rightarrow> ptr \<times> gralloc_gbm_handle_t option \<times> gralloc_state" where
  "validate_handle be st handle0 gbm =
     (case gralloc_gbm_handle handle0 of
        None \<Rightarrow> (NULL, handle0, st)
      | Some handle \<Rightarrow>
          let (pid, st1) = gralloc_gbm_get_pid be st
          in if data_owner handle = pid then (data handle, handle0, st1)
             else if gbm = NULL then (NULL, handle0, st1)
             else
               let (b, st2) = gbm_import be st1 gbm handle;
                   (pid2, st3) = gralloc_gbm_get_pid be st2
               in (b, Some (handle\<lparr>data_owner := pid2, data := b\<rparr>), st3))"

text \<open>\<open>gralloc_gbm_handle_register\<close> (source lines 346-349).\<close>

definition gralloc_gbm_handle_register :: "gbm_backend \<Rightarrow> gralloc_state
    \<Rightarrow> gralloc_gbm_handle_t option \<Rightarrow> ptr \<Rightarrow> int32 \<times> gralloc_gbm_handle_t option \<times> gralloc_state" where
  "gralloc_gbm_handle_register be st handle gbm =
     (let (b, handle1, st1) = validate_handle be st handle gbm
      in ((if b \<noteq> NULL then 0 else - EINVAL), handle1, st1))"

text \<open>\<open>gralloc_gbm_handle_unregister\<close> (source lines 354-368).\<close>

definition gralloc_gbm_handle_unregister :: "gbm_backend \<Rightarrow> gralloc_state
    \<Rightarrow> gralloc_gbm_handle_t option
    \<Rightarrow> (int32 \<times> gralloc_gbm_handle_t option \<times> gralloc_state) option" where
  "gralloc_gbm_handle_unregister be st handle =
     (let (b, handle1, st1) = validate_handle be st handle NULL
      in if b = NULL then Some (- EINVAL, handle1, st1)
         else
           (case gbm_free st1 b of
              None \<Rightarrow> None
            | Some st2 \<Rightarrow>
                (case gralloc_gbm_handle handle1 of
                   None \<Rightarrow> None
                 | Some gbm_handle \<Rightarrow>
                     Some (0, Some (gbm_handle\<lparr>data_owner := 0, data := NULL\<rparr>), st2))))"

text \<open>\<open>create_bo_handle\<close> (source lines 373-394); the fields it leaves alone are zero.\<close>

definition create_bo_handle :: "int32 \<Rightarrow> int32 \<Rightarrow> int32 \<Rightarrow> int32 \<Rightarrow> gralloc_gbm_handle_t" where
  "create_bo_handle w h fmt u =
     \<lparr>magic = GRALLOC_GBM_HANDLE_MAGIC, width = w, height = h, format = fmt, usage = u,
      prime_fd = - 1, stride = 0, modifier = 0, data_owner = 0, data = NULL\<rparr>"

text \<open>\<open>gralloc_gbm_bo_create\<close> (source lines 399-419).\<close>

definition gralloc_gbm_bo_create :: "gbm_backend \<Rightarrow> gralloc_state \<Rightarrow> ptr
    \<Rightarrow> int32 \<Rightarrow> int32 \<Rightarrow> int32 \<Rightarrow> int32 \<Rightarrow> gralloc_gbm_handle_t option \<times> gralloc_state" where
  "gralloc_gbm_bo_create be st gbm w h fmt u =
     (let handle = create_bo_handle w h fmt u;
          (b, handle1, st1) = gbm_alloc be st gbm handle
      in if b = NULL then (None, st1)
         else
           let (pid, st2) = gralloc_gbm_get_pid be st1
           in (Some (handle1\<lparr>data_owner := pid, data := b\<rparr>), st2))"

section \<open>Lock and unlock\<close>

text \<open>
  The last two statements of \<open>gralloc_gbm_bo_lock\<close> (source lines 472-473), with the
  combined usage \<open>u\<close>.
\<close>

definition lock_commit :: "gralloc_state \<Rightarrow> ptr \<Rightarrow> int32 \<Rightarrow> gralloc_state option" where
  "lock_commit st p u =
     (case deref st p of
        None \<Rightarrow> None
      | Some b \<Rightarrow>
          Some (st\<lparr>heap := (heap st)(p \<mapsto>
                  b\<lparr>lock_count := lock_count b + 1, locked_for := locked_for b OR u\<rparr>)\<rparr>))"

text \<open>
  \<open>gralloc_gbm_bo_lock\<close> (source lines 432-476). \<open>usage0\<close> is the usage of the request,
  \<open>usage1\<close> the request merged with the accumulated mask. The result is the status,
  the content of \<open>*addr\<close> and the new state.
\<close>

definition gralloc_gbm_bo_lock :: "gbm_backend \<Rightarrow> gralloc_state \<Rightarrow> gralloc_gbm_handle_t option
    \<Rightarrow> int32 \<Rightarrow> int32 \<Rightarrow> int32 \<Rightarrow> int32 \<Rightarrow> int32 \<Rightarrow> ptr
    \<Rightarrow> (int32 \<times> ptr \<times> gralloc_state) option" where
  "gralloc_gbm_bo_lock be st handle usage0 x y w h addr =
     (let p = gralloc_gbm_bo_from_handle be handle
      in if p = NULL then Some (- EINVAL, addr, st)
         else
           (case (gralloc_gbm_handle handle, deref st p) of
              (Some gbm_handle, Some b) \<Rightarrow>
                if (usage gbm_handle AND usage0) \<noteq> usage0
                   \<and> \<not> (usage gbm_handle AND GRALLOC_USAGE_SW_READ_OFTEN \<noteq> 0)
                   \<and> \<not> (usage gbm_handle AND GRALLOC_USAGE_HW_FB \<noteq> 0)
                   \<and> \<not> (usage gbm_handle AND GRALLOC_USAGE_HW_TEXTURE \<noteq> 0)
                then Some (- EINVAL, addr, st)
                else if lock_count b \<noteq> 0 \<and> (locked_for b AND usage0) \<noteq> usage0
                then Some (- EINVAL, addr, st)
                else
                  let usage1 = usage0 OR locked_for b
                  in if usage1 AND (GRALLOC_USAGE_SW_WRITE_MASK OR GRALLOC_USAGE_SW_READ_MASK) \<noteq> 0
                     then
                       let write = (if usage1 AND GRALLOC_USAGE_SW_WRITE_MASK \<noteq> 0 then 1 else 0)
                       in (case gbm_map be st handle x y w h write addr of
                             None \<Rightarrow> None
                           | Some (err, a, st1) \<Rightarrow>
                               if err \<noteq> 0 then Some (err, a, st1)
                               else (case lock_commit st1 p usage1 of
                                       None \<Rightarrow> None
                                     | Some st2 \<Rightarrow> Some (0, a, st2)))
                     else (case lock_commit st p usage1 of
                             None \<Rightarrow> None
                           | Some st2 \<Rightarrow> Some (0, addr, st2))
            | _ \<Rightarrow> None))"

text \<open>\<open>gralloc_gbm_bo_unlock\<close> (source lines 481-501).\<close>

definition gralloc_gbm_bo_unlock :: "gbm_backend \<Rightarrow> gralloc_state \<Rightarrow> gralloc_gbm_handle_t option
    \<Rightarrow> (int32 \<times> gralloc_state) option" where
  "gralloc_gbm_bo_unlock be st handle =
     (let p = gralloc_gbm_bo_from_handle be handle
      in if p = NULL then Some (- EINVAL, st)
         else
           (case deref st p of
              None \<Rightarrow> None
            | Some b \<Rightarrow>
                let mapped = locked_for b AND (GRALLOC_USAGE_SW_WRITE_MASK OR GRALLOC_USAGE_SW_READ_MASK)
                in if lock_count b = 0 then Some (0, st)
                   else
                     (case (if mapped \<noteq> 0 then gbm_unmap st p else Some st) of
                        None \<Rightarrow> None
                      | Some st1 \<Rightarrow>
                          (case deref st1 p of
                             None \<Rightarrow> None
                           | Some b1 \<Rightarrow>
                               let b2 = b1\<lparr>lock_count := lock_count b1 - 1\<rparr>;
                                   b3 = (if lock_count b2 = 0 then b2\<lparr>locked_for := 0\<rparr> else b2)
                               in Some (0, st1\<lparr>heap := (heap st1)(p \<mapsto> b3)\<rparr>)))))"

section \<open>Runs of the module\<close>

text \<open>The state of a process before its first call: the static pid is 0, nothing is
  allocated, and \<open>new\<close> gives out the addresses from 16 on.\<close>

definition initial_state :: gralloc_state where
  "initial_state = \<lparr>gralloc_gbm_pid = 0, heap = Map.empty, next_ptr = 16, trace = []\<rparr>"

text \<open>
  The entry points of the module as calls with their arguments. Descriptors are passed
  by the caller, so a run may use any descriptor at any call.
\<close>

datatype api_call =
  Create ptr int32 int32 int32 int32
  | Register "gralloc_gbm_handle_t option" ptr
  | Unregister "gralloc_gbm_handle_t option"
  | Lock "gralloc_gbm_handle_t option" int32 int32 int32 int32 int32 ptr
  | Unlock "gralloc_gbm_handle_t option"

fun api_step :: "gbm_backend \<Rightarrow> gralloc_state \<Rightarrow> api_call \<Rightarrow> gralloc_state option" where
  "api_step be st (Create gbm w h fmt u) = Some (snd (gralloc_gbm_bo_create be st gbm w h fmt u))"
| "api_step be st (Register handle gbm) = Some (snd (snd (gralloc_gbm_handle_register be st handle gbm)))"
| "api_step be st (Unregister handle) =
     map_option (\<lambda>r. snd (snd r)) (gralloc_gbm_handle_unregister be st handle)"
| "api_step be st (Lock handle u x y w h addr) =
     map_option (\<lambda>r. snd (snd r)) (gralloc_gbm_bo_lock be st handle u x y w h addr)"
| "api_step be st (Unlock handle) = map_option snd (gralloc_gbm_bo_unlock be st handle)"

fun api_run :: "gbm_backend \<Rightarrow> gralloc_state \<Rightarrow> api_call list \<Rightarrow> gralloc_state option" where
  "api_run be st [] = Some st"
| "api_run be st (c # cs) =
     (case api_step be st c of None \<Rightarrow> None | Some st1 \<Rightarrow> api_run be st1 cs)"

section \<open>Vocabulary of the properties\<close>

text \<open>A usage mask has a CPU intent when it has a software read or write bit (source lines 460-461).\<close>

definition cpu_intent :: "int32 \<Rightarrow> bool" where
  "cpu_intent u \<longleftrightarrow> u AND (GRALLOC_USAGE_SW_WRITE_MASK OR GRALLOC_USAGE_SW_READ_MASK) \<noteq> 0"

text \<open>
  The creation usage waives the subset requirement when it shares a bit with
  software-read-often, with hardware-framebuffer or with hardware-texture (source
  lines 445-447).
\<close>

definition usage_relaxed :: "int32 \<Rightarrow> bool" where
  "usage_relaxed cu \<longleftrightarrow>
     cu AND GRALLOC_USAGE_SW_READ_OFTEN \<noteq> 0 \<or> cu AND GRALLOC_USAGE_HW_FB \<noteq> 0
     \<or> cu AND GRALLOC_USAGE_HW_TEXTURE \<noteq> 0"

text \<open>The permission check of a lock request \<open>u\<close> against the creation usage \<open>cu\<close>.\<close>

definition lock_permitted :: "int32 \<Rightarrow> int32 \<Rightarrow> bool" where
  "lock_permitted cu u \<longleftrightarrow> cu AND u = u \<or> usage_relaxed cu"

text \<open>
  What the module relies on from \<open>gbm_bo_map\<close>, the map primitive that answers with
  an address, a stride and a map token, or with null: a successful map leaves a non-null
  token in the \<open>map_data\<close> cell, a failed one leaves the cell as it was.
\<close>

definition map_contract :: "gbm_backend \<Rightarrow> bool" where
  "map_contract be \<longleftrightarrow>
     (\<forall>tr b x y w h f md.
        case gbm_bo_map be tr b x y w h f md of
          (a, strd, md1) \<Rightarrow> (a = NULL \<longrightarrow> md1 = md) \<and> (a \<noteq> NULL \<longrightarrow> md1 \<noteq> NULL))"

text \<open>The invariant of a buffer object: mapped exactly when locked with a CPU intent.\<close>

definition mapping_invariant :: "gralloc_gbm_bo_t \<Rightarrow> bool" where
  "mapping_invariant b \<longleftrightarrow>
     (map_data b \<noteq> NULL \<longleftrightarrow> 0 <s lock_count b \<and> cpu_intent (locked_for b))"

text \<open>A lock held with a CPU intent is never nested.\<close>

definition cpu_lock_single :: "gralloc_gbm_bo_t \<Rightarrow> bool" where
  "cpu_lock_single b \<longleftrightarrow> (cpu_intent (locked_for b) \<and> lock_count b \<noteq> 0 \<longrightarrow> lock_count b = 1)"

text \<open>
  The change that one call of \<open>gralloc_gbm_bo_lock\<close> can make to the object it locks:
  after the compatibility check, either the map is skipped and the lock is counted, or
  the unmapped object is mapped and the lock is counted when the backend returns an
  address.
\<close>

definition lock_effect :: "gbm_backend \<Rightarrow> gralloc_gbm_bo_t \<Rightarrow> gralloc_gbm_bo_t \<Rightarrow> bool" where
  "lock_effect be b b1 \<longleftrightarrow>
     (\<exists>u tr x y f a strd md.
        (lock_count b = 0 \<or> locked_for b AND u = u) \<and>
        (if cpu_intent (u OR locked_for b)
         then map_data b = NULL \<and> gbm_bo_map be tr (bo b) 0 0 x y f NULL = (a, strd, md)
              \<and> b1 = (if a = NULL then b\<lparr>map_data := md\<rparr>
                       else b\<lparr>map_data := md, lock_count := lock_count b + 1,
                               locked_for := locked_for b OR (u OR locked_for b)\<rparr>)
         else b1 = b\<lparr>lock_count := lock_count b + 1,
                      locked_for := locked_for b OR (u OR locked_for b)\<rparr>))"

text \<open>The change that one call of \<open>gralloc_gbm_bo_unlock\<close> makes to a locked object.\<close>

definition unlock_effect :: "gralloc_gbm_bo_t \<Rightarrow> gralloc_gbm_bo_t \<Rightarrow> bool" where
  "unlock_effect b b1 \<longleftrightarrow>
     lock_count b \<noteq> 0 \<and>
     b1 = b\<lparr>map_data := (if cpu_intent (locked_for b) then NULL else map_data b),
            lock_count := lock_count b - 1,
            locked_for := (if lock_count b - 1 = 0 then 0 else locked_for b)\<rparr>"

text \<open>A backend whose answers do not depend on the arguments, for concrete runs.\<close>

definition fixed_backend :: "int32 \<Rightarrow> ptr \<Rightarrow> ptr \<Rightarrow> ptr \<times> uint32 \<times> ptr \<Rightarrow> gbm_backend" where
  "fixed_backend pid created imported mapped =
     \<lparr>getpid = pid,
      gbm_bo_create = (\<lambda>tr gbm w h fmt bind. created),
      gbm_bo_import = (\<lambda>tr gbm d. imported),
      gbm_bo_get_fd = (\<lambda>tr b. 5),
      gbm_bo_get_stride = (\<lambda>tr b. 256),
      gbm_bo_get_modifier = (\<lambda>tr b. 0),
      gbm_bo_map = (\<lambda>tr b x y w h f md. mapped)\<rparr>"

text \<open>
  A 64 by 64 RGBA descriptor with creation usage \<open>u\<close>, owned by process 1000, whose
  object is at address 16; and the state of process 1000 holding the object \<open>b\<close> there
  after the backend calls \<open>tr\<close>. \<open>gralloc_gbm_bo_create\<close> produces both in a fresh
  process (lemma \<open>example_create\<close>).
\<close>

definition example_handle :: "int32 \<Rightarrow> gralloc_gbm_handle_t" where
  "example_handle u =
     \<lparr>magic = GRALLOC_GBM_HANDLE_MAGIC, width = 64, height = 64,
      format = HAL_PIXEL_FORMAT_RGBA_8888, usage = u, prime_fd = 5, stride = 256, modifier = 0,
      data_owner = 1000, data = 16\<rparr>"

definition example_state :: "gralloc_gbm_bo_t \<Rightarrow> gbm_call list \<Rightarrow> gralloc_state" where
  "example_state b tr = \<lparr>gralloc_gbm_pid = 1000, heap = [16 \<mapsto> b], next_ptr = 17, trace = tr\<rparr>"

section \<open>Arithmetic of the C integers\<close>

lemma sdiv2_nonneg: "0 \<le> (k::int) \<Longrightarrow> k sdiv 2 = k div 2"
  by (simp add: signed_divide_int_def sgn_if)

lemma c_div_nonneg:
  assumes "0 \<le>s a"
  shows "c_div a 2 = a div 2"
proof -
  from assms have nn: "0 \<le> sint a"
    by (simp add: word_sle_eq)
  have "sint a < 2 ^ 32"
    using sint_less [of a] by simp
  with nn have "take_bit 32 (sint a) = sint a"
    by (simp add: take_bit_int_eq_self)
  then have su: "sint a = uint a"
    using uint_sint [of a] by simp
  have "c_div a 2 = word_of_int (uint a div 2)"
    using nn by (simp add: c_div_def sdiv2_nonneg su)
  also have "\<dots> = a div 2"
    by (simp add: word_div_def)
  finally show ?thesis .
qed

section \<open>Planar geometry\<close>

text \<open>The binding flags never hold the cursor bit, so the cursor clamp of \<open>gbm_alloc\<close> is dead.\<close>

lemma get_pipe_bind_no_cursor: "get_pipe_bind u AND GBM_BO_USE_CURSOR = 0"
  by (simp add: get_pipe_bind_def Let_def GBM_BO_USE_CURSOR_def GBM_BO_USE_LINEAR_def
      GBM_BO_USE_RENDERING_def GBM_BO_USE_SCANOUT_def)

text \<open>The three sizes are what the backend receives.\<close>

lemma gbm_alloc_trace:
  "trace (snd (snd (gbm_alloc be st gbm handle))) =
     trace st @ [Bo_create gbm (fst (gbm_alloc_size handle)) (snd (gbm_alloc_size handle))
                   (get_gbm_format (format handle)) (get_pipe_bind (usage handle))]"
  by (simp add: gbm_alloc_def new_bo_def delete_bo_def Let_def split: prod.splits)

lemma gbm_import_trace:
  assumes "\<not> prime_fd handle <s 0"
  shows "\<exists>d. trace (snd (gbm_import be st gbm handle)) = trace st @ [Bo_import gbm d]
           \<and> (data_width d, data_height d) = gbm_import_size handle"
  using assms
  by (simp add: gbm_import_def new_bo_def delete_bo_def Let_def split: prod.splits)

lemma gbm_map_trace:
  assumes "gralloc_gbm_handle handle = Some gbm_handle"
    and "deref st (gralloc_gbm_bo_from_handle be handle) = Some b"
    and "map_data b = NULL"
    and "gbm_map be st handle x y w h enable_write addr = Some (err, a, st1)"
  shows "\<exists>flags. trace st1 = trace st @
           [Bo_map (bo b) 0 0 (fst (gbm_map_size (format gbm_handle) x y w h))
              (snd (gbm_map_size (format gbm_handle) x y w h)) flags]"
  using assms
  by (auto simp add: gbm_map_def Let_def split: prod.splits if_splits)

text \<open>
  C1 (as amended). For every descriptor of the planar YV12 format whose logical width
  is not negative, and for every logical height, the physical size is computed three
  times from the logical width, height and format: by \<open>gbm_alloc\<close> for the create
  call, by \<open>gbm_import\<close> for the import data, and by \<open>gbm_map\<close> for a map of the whole
  buffer (rectangle at offset 0 with the logical size). All three computations give
  the same pair: the width halved, and the height plus half the height, the half
  being truncated towards zero, in 32-bit arithmetic.
\<close>

theorem yv12_geometry_agrees:
  assumes "format handle = HAL_PIXEL_FORMAT_YV12"
    and "0 \<le>s width handle"
  shows "gbm_alloc_size handle = (width handle div 2, height handle + c_div (height handle) 2)
       \<and> gbm_import_size handle = (width handle div 2, height handle + c_div (height handle) 2)
       \<and> gbm_map_size (format handle) 0 0 (width handle) (height handle)
           = (width handle div 2, height handle + c_div (height handle) 2)"
  using assms
  by (simp add: gbm_alloc_size_def gbm_import_size_def gbm_map_size_def
      get_pipe_bind_no_cursor c_div_nonneg)

theorem yv12_geometry_agrees_witness:
  "format (create_bo_handle 640 480 HAL_PIXEL_FORMAT_YV12 0x30) = HAL_PIXEL_FORMAT_YV12
   \<and> 0 \<le>s width (create_bo_handle 640 480 HAL_PIXEL_FORMAT_YV12 0x30)
   \<and> gbm_alloc_size (create_bo_handle 640 480 HAL_PIXEL_FORMAT_YV12 0x30) = (320, 720)
   \<and> gbm_import_size (create_bo_handle 640 480 HAL_PIXEL_FORMAT_YV12 0x30) = (320, 720)
   \<and> gbm_map_size HAL_PIXEL_FORMAT_YV12 0 0 640 480 = (320, 720)"
  using yv12_geometry_agrees [of "create_bo_handle 640 480 HAL_PIXEL_FORMAT_YV12 0x30"]
  by (simp add: create_bo_handle_def c_div_def signed_divide_int_def word_sle_eq)

text \<open>
  For the logical width -2 the claim as stated fails: \<open>gbm_alloc\<close> divides the \<open>int\<close>
  -2 by 2 and passes -1, that is 4294967295, while \<open>gbm_import\<close> divides the
  \<open>uint32_t\<close> 4294967294 by 2 and passes 2147483647.
\<close>

theorem yv12_geometry_negative_width_counterexample:
  "gbm_alloc_size (create_bo_handle (- 2) 4 HAL_PIXEL_FORMAT_YV12 0) = (4294967295, 6)
   \<and> gbm_import_size (create_bo_handle (- 2) 4 HAL_PIXEL_FORMAT_YV12 0) = (2147483647, 6)"
  by (simp add: gbm_alloc_size_def gbm_import_size_def create_bo_handle_def
      get_pipe_bind_no_cursor c_div_def signed_divide_int_def)

section \<open>Evaluation of concrete runs\<close>

lemmas const_defs =
  HAL_PIXEL_FORMAT_RGBA_8888_def HAL_PIXEL_FORMAT_RGBX_8888_def HAL_PIXEL_FORMAT_RGB_888_def
  HAL_PIXEL_FORMAT_RGB_565_def HAL_PIXEL_FORMAT_BGRA_8888_def HAL_PIXEL_FORMAT_YV12_def
  GBM_FORMAT_ABGR8888_def GBM_FORMAT_XBGR8888_def GBM_FORMAT_RGB888_def GBM_FORMAT_RGB565_def
  GBM_FORMAT_ARGB8888_def GBM_FORMAT_GR88_def
  GBM_BO_USE_SCANOUT_def GBM_BO_USE_CURSOR_def GBM_BO_USE_RENDERING_def GBM_BO_USE_LINEAR_def
  GBM_BO_TRANSFER_READ_def GBM_BO_TRANSFER_WRITE_def
  GRALLOC_USAGE_SW_READ_OFTEN_def GRALLOC_USAGE_SW_READ_MASK_def GRALLOC_USAGE_SW_WRITE_OFTEN_def
  GRALLOC_USAGE_SW_WRITE_MASK_def GRALLOC_USAGE_HW_TEXTURE_def GRALLOC_USAGE_HW_RENDER_def
  GRALLOC_USAGE_HW_FB_def GRALLOC_USAGE_CURSOR_def EINVAL_def ENOMEM_def GRALLOC_GBM_HANDLE_MAGIC_def

lemmas example_eval =
  example_handle_def example_state_def fixed_backend_def cpu_intent_def lock_permitted_def
  usage_relaxed_def gbm_map_size_def const_defs

lemma example_resolves:
  "gralloc_gbm_handle (Some (example_handle u)) = Some (example_handle u)"
  "gralloc_gbm_bo_from_handle (fixed_backend 1000 c i m) (Some (example_handle u)) = 16"
  "deref (example_state b tr) 16 = Some b"
  by (simp_all add: gralloc_gbm_handle_def gralloc_gbm_bo_from_handle_def example_handle_def
      fixed_backend_def deref_def example_state_def)

text \<open>\<open>gralloc_gbm_bo_create\<close> in a fresh process gives the example descriptor and state.\<close>

lemma example_create:
  "gralloc_gbm_bo_create (fixed_backend 1000 7 i m) initial_state 9 64 64 HAL_PIXEL_FORMAT_RGBA_8888 u
   = (Some (example_handle u),
      example_state \<lparr>bo = 7, map_data = NULL, lock_count = 0, locked_for = 0\<rparr>
        [Bo_create 9 64 64 GBM_FORMAT_ABGR8888 (get_pipe_bind u)])"
  by (simp add: gralloc_gbm_bo_create_def create_bo_handle_def gbm_alloc_def gbm_alloc_size_def
      new_bo_def delete_bo_def get_gbm_format_def gralloc_gbm_get_pid_def initial_state_def
      fixed_backend_def example_handle_def example_state_def get_pipe_bind_no_cursor Let_def
      HAL_PIXEL_FORMAT_RGBA_8888_def HAL_PIXEL_FORMAT_YV12_def)

section \<open>Lock and unlock on a resolved descriptor\<close>

text \<open>
  The whole of \<open>gralloc_gbm_bo_lock\<close> for a descriptor that resolves to a live object, with
  the call of \<open>gbm_map\<close> unfolded.
\<close>

lemma lock_resolved:
  assumes "gralloc_gbm_handle handle = Some gh"
    and "gralloc_gbm_bo_from_handle be handle = p"
    and "deref st p = Some b"
  shows "gralloc_gbm_bo_lock be st handle u x y w h addr =
     (if \<not> lock_permitted (usage gh) u then Some (- EINVAL, addr, st)
      else if lock_count b \<noteq> 0 \<and> locked_for b AND u \<noteq> u then Some (- EINVAL, addr, st)
      else if cpu_intent (u OR locked_for b) then
        (if map_data b \<noteq> NULL then Some (- EINVAL, addr, st)
         else
           (case gbm_bo_map be (trace st) (bo b) 0 0
                   (fst (gbm_map_size (format gh) x y w h)) (snd (gbm_map_size (format gh) x y w h))
                   (if (u OR locked_for b) AND GRALLOC_USAGE_SW_WRITE_MASK \<noteq> 0
                    then GBM_BO_TRANSFER_READ OR GBM_BO_TRANSFER_WRITE else GBM_BO_TRANSFER_READ)
                   NULL of
              (a, strd, md) \<Rightarrow>
                if a = NULL
                then Some (- ENOMEM, a,
                       st\<lparr>heap := (heap st)(p \<mapsto> b\<lparr>map_data := md\<rparr>),
                          trace := trace st @ [Bo_map (bo b) 0 0
                            (fst (gbm_map_size (format gh) x y w h)) (snd (gbm_map_size (format gh) x y w h))
                            (if (u OR locked_for b) AND GRALLOC_USAGE_SW_WRITE_MASK \<noteq> 0
                             then GBM_BO_TRANSFER_READ OR GBM_BO_TRANSFER_WRITE else GBM_BO_TRANSFER_READ)]\<rparr>)
                else Some (0, a,
                       st\<lparr>heap := (heap st)(p \<mapsto> b\<lparr>map_data := md, lock_count := lock_count b + 1,
                                                   locked_for := locked_for b OR (u OR locked_for b)\<rparr>),
                          trace := trace st @ [Bo_map (bo b) 0 0
                            (fst (gbm_map_size (format gh) x y w h)) (snd (gbm_map_size (format gh) x y w h))
                            (if (u OR locked_for b) AND GRALLOC_USAGE_SW_WRITE_MASK \<noteq> 0
                             then GBM_BO_TRANSFER_READ OR GBM_BO_TRANSFER_WRITE else GBM_BO_TRANSFER_READ)]\<rparr>)))
      else Some (0, addr,
             st\<lparr>heap := (heap st)(p \<mapsto> b\<lparr>lock_count := lock_count b + 1,
                                         locked_for := locked_for b OR (u OR locked_for b)\<rparr>)\<rparr>))"
proof -
  from assms(3) have pnz: "p \<noteq> NULL"
    by (auto simp: deref_def split: if_splits)
  have einval: "EINVAL \<noteq> 0" "ENOMEM \<noteq> 0"
    by (simp_all add: EINVAL_def ENOMEM_def)
  show ?thesis
    using assms pnz einval
    by (auto simp: gralloc_gbm_bo_lock_def gbm_map_def lock_commit_def deref_def Let_def
        lock_permitted_def usage_relaxed_def cpu_intent_def
        split: prod.splits)
qed

lemma unlock_resolved:
  assumes "gralloc_gbm_bo_from_handle be handle = p"
    and "deref st p = Some b"
  shows "gralloc_gbm_bo_unlock be st handle =
     (if lock_count b = 0 then Some (0, st)
      else if cpu_intent (locked_for b) then
        Some (0, st\<lparr>heap := (heap st)(p \<mapsto>
                      b\<lparr>map_data := NULL, lock_count := lock_count b - 1,
                        locked_for := (if lock_count b - 1 = 0 then 0 else locked_for b)\<rparr>),
                    trace := trace st @ [Bo_unmap (bo b) (map_data b)]\<rparr>)
      else
        Some (0, st\<lparr>heap := (heap st)(p \<mapsto>
                      b\<lparr>lock_count := lock_count b - 1,
                        locked_for := (if lock_count b - 1 = 0 then 0 else locked_for b)\<rparr>)\<rparr>))"
proof -
  from assms(2) have pnz: "p \<noteq> NULL"
    by (auto simp: deref_def split: if_splits)
  show ?thesis
    using assms pnz
    by (auto simp: gralloc_gbm_bo_unlock_def gbm_unmap_def deref_def Let_def cpu_intent_def)
qed

lemma lock_unresolved:
  assumes "gralloc_gbm_bo_from_handle be handle = NULL"
  shows "gralloc_gbm_bo_lock be st handle u x y w h addr = Some (- EINVAL, addr, st)"
  using assms by (simp add: gralloc_gbm_bo_lock_def)

lemma from_handle_valid:
  assumes "gralloc_gbm_bo_from_handle be handle \<noteq> NULL"
  shows "\<exists>gh. gralloc_gbm_handle handle = Some gh"
  using assms by (auto simp: gralloc_gbm_bo_from_handle_def split: option.splits)

lemma lock_defined:
  assumes "gralloc_gbm_bo_lock be st handle u x y w h addr = Some r"
    and "gralloc_gbm_bo_from_handle be handle \<noteq> NULL"
  shows "\<exists>b. deref st (gralloc_gbm_bo_from_handle be handle) = Some b"
  using assms by (auto simp: gralloc_gbm_bo_lock_def Let_def split: option.splits)

lemmas example_lock = lock_resolved [OF example_resolves(1,2,3)]

lemma or_absorb_request: "(l::int32) OR (u OR l) = l OR u"
  by (simp add: or.commute or.left_commute)

lemma or_subset_request: "(l::int32) AND u = u \<Longrightarrow> l OR u = l"
  by (metis and.commute or.commute word_ao_absorbs(2))

section \<open>Properties of the lock state machine\<close>

text \<open>
  C6 (as amended). For every lock call on a valid descriptor (whose data reference is
  not dangling): if the requested usage is not a subset of the creation usage, the call
  fails with \<open>-EINVAL\<close> and changes nothing, unless the creation usage shares a bit
  with software-read-often (the two-bit value 0x3, so a creation usage with
  software-read-rarely, 0x2, counts as well), with hardware-framebuffer or with
  hardware-texture. In that case the subset requirement is waived: the call does
  exactly what it does for a descriptor whose creation usage contains the request.
\<close>

theorem lock_permission_check:
  assumes "gralloc_gbm_handle handle = Some gh"
    and "gralloc_gbm_bo_from_handle be handle \<noteq> NULL
         \<longrightarrow> deref st (gralloc_gbm_bo_from_handle be handle) \<noteq> None"
  shows "(usage gh AND u \<noteq> u \<and> \<not> usage_relaxed (usage gh)
            \<longrightarrow> gralloc_gbm_bo_lock be st handle u x y w h addr = Some (- EINVAL, addr, st))
       \<and> (usage_relaxed (usage gh)
            \<longrightarrow> gralloc_gbm_bo_lock be st handle u x y w h addr
                = gralloc_gbm_bo_lock be st (Some (gh\<lparr>usage := usage gh OR u\<rparr>)) u x y w h addr)"
proof (cases "gralloc_gbm_bo_from_handle be handle = NULL")
  case True
  from assms(1) have hd: "handle = Some gh"
    by (auto simp: gralloc_gbm_handle_def split: option.splits if_splits)
  from True hd have "gralloc_gbm_bo_from_handle be (Some (gh\<lparr>usage := usage gh OR u\<rparr>)) = NULL"
    by (auto simp: gralloc_gbm_bo_from_handle_def gralloc_gbm_handle_def split: if_splits)
  with True show ?thesis by (simp add: lock_unresolved)
next
  case False
  with assms(2) obtain b where b: "deref st (gralloc_gbm_bo_from_handle be handle) = Some b"
    by auto
  from assms(1) have hd: "handle = Some gh"
    by (auto simp: gralloc_gbm_handle_def split: option.splits if_splits)
  let ?gh = "gh\<lparr>usage := usage gh OR u\<rparr>"
  from assms(1) hd have v2: "gralloc_gbm_handle (Some ?gh) = Some ?gh"
    by (auto simp: gralloc_gbm_handle_def split: if_splits)
  from hd assms(1) have p2: "gralloc_gbm_bo_from_handle be (Some ?gh) = gralloc_gbm_bo_from_handle be handle"
    by (auto simp: gralloc_gbm_bo_from_handle_def gralloc_gbm_handle_def split: if_splits)
  have perm2: "lock_permitted (usage ?gh) u"
    by (simp add: lock_permitted_def word_bw_comms word_ao_absorbs)
  have fmt: "format ?gh = format gh"
    by simp
  show ?thesis
    unfolding lock_resolved [OF assms(1) refl b] lock_resolved [OF v2 p2 b] fmt
    using perm2 by (simp add: lock_permitted_def)
qed

theorem lock_permission_check_witness:
  "gralloc_gbm_handle (Some (example_handle 0x200)) = Some (example_handle 0x200)
   \<and> deref (example_state \<lparr>bo = 7, map_data = NULL, lock_count = 0, locked_for = 0\<rparr> [])
        (gralloc_gbm_bo_from_handle (fixed_backend 1000 7 0 (0, 0, 0)) (Some (example_handle 0x200)))
       \<noteq> None
   \<and> usage (example_handle 0x200) AND 0x800 \<noteq> 0x800
   \<and> \<not> usage_relaxed (usage (example_handle 0x200))
   \<and> gralloc_gbm_bo_lock (fixed_backend 1000 7 0 (0, 0, 0))
        (example_state \<lparr>bo = 7, map_data = NULL, lock_count = 0, locked_for = 0\<rparr> [])
        (Some (example_handle 0x200)) 0x800 0 0 64 64 0
      = Some (- EINVAL, 0, example_state \<lparr>bo = 7, map_data = NULL, lock_count = 0, locked_for = 0\<rparr> [])
   \<and> gralloc_gbm_handle (Some (example_handle 0x100)) = Some (example_handle 0x100)
   \<and> usage_relaxed (usage (example_handle 0x100))
   \<and> gralloc_gbm_bo_lock (fixed_backend 1000 7 0 (0, 0, 0))
        (example_state \<lparr>bo = 7, map_data = NULL, lock_count = 0, locked_for = 0\<rparr> [])
        (Some (example_handle 0x100)) 0x800 0 0 64 64 0
      = gralloc_gbm_bo_lock (fixed_backend 1000 7 0 (0, 0, 0))
        (example_state \<lparr>bo = 7, map_data = NULL, lock_count = 0, locked_for = 0\<rparr> [])
        (Some (example_handle 0x900)) 0x800 0 0 64 64 0"
proof -
  let ?be = "fixed_backend 1000 7 0 (0, 0, 0)"
  let ?st = "example_state \<lparr>bo = 7, map_data = NULL, lock_count = 0, locked_for = 0\<rparr> []"
  have r: "usage (example_handle 0x200) AND 0x800 \<noteq> 0x800"
    "\<not> usage_relaxed (usage (example_handle 0x200))"
    "usage_relaxed (usage (example_handle 0x100))"
    "(example_handle 0x100)\<lparr>usage := usage (example_handle 0x100) OR 0x800\<rparr> = example_handle 0x900"
    by (simp_all add: example_handle_def usage_relaxed_def const_defs)
  have d: "gralloc_gbm_bo_from_handle ?be (Some (example_handle u)) \<noteq> NULL
      \<longrightarrow> deref ?st (gralloc_gbm_bo_from_handle ?be (Some (example_handle u))) \<noteq> None" for u
    by (simp add: example_resolves)
  show ?thesis
    using lock_permission_check [OF example_resolves(1) d, of "0x200" "0x800" 0 0 64 64 0]
      lock_permission_check [OF example_resolves(1) d, of "0x100" "0x800" 0 0 64 64 0] r
    by (simp add: example_resolves)
qed

text \<open>
  The claim as stated fails for a creation usage of software-read-rarely alone: 0x2
  does not include software-read-often (0x3), hardware-framebuffer or
  hardware-texture, and the request 0x800 is not a subset of it, yet the source tests
  \<open>usage & GRALLOC_USAGE_SW_READ_OFTEN\<close>, which is 2 here, so the request is let through
  and the lock succeeds.
\<close>

theorem lock_permission_read_rarely_counterexample:
  "gralloc_gbm_bo_create (fixed_backend 1000 7 0 (0, 0, 0)) initial_state 9 64 64
       HAL_PIXEL_FORMAT_RGBA_8888 0x2
     = (Some (example_handle 0x2),
        example_state \<lparr>bo = 7, map_data = NULL, lock_count = 0, locked_for = 0\<rparr>
          [Bo_create 9 64 64 GBM_FORMAT_ABGR8888 16])
   \<and> usage (example_handle 0x2) AND 0x800 \<noteq> 0x800
   \<and> usage (example_handle 0x2) AND GRALLOC_USAGE_SW_READ_OFTEN \<noteq> GRALLOC_USAGE_SW_READ_OFTEN
   \<and> usage (example_handle 0x2) AND GRALLOC_USAGE_HW_FB = 0
   \<and> usage (example_handle 0x2) AND GRALLOC_USAGE_HW_TEXTURE = 0
   \<and> gralloc_gbm_bo_lock (fixed_backend 1000 7 0 (0, 0, 0))
        (example_state \<lparr>bo = 7, map_data = NULL, lock_count = 0, locked_for = 0\<rparr>
          [Bo_create 9 64 64 GBM_FORMAT_ABGR8888 16])
        (Some (example_handle 0x2)) 0x800 0 0 64 64 0
      = Some (0, 0,
          example_state \<lparr>bo = 7, map_data = NULL, lock_count = 1, locked_for = 0x800\<rparr>
            [Bo_create 9 64 64 GBM_FORMAT_ABGR8888 16])"
proof -
  have b: "get_pipe_bind 0x2 = 16"
    by (simp add: get_pipe_bind_def const_defs)
  have u: "usage (example_handle 0x2) AND 0x800 \<noteq> 0x800"
    "usage (example_handle 0x2) AND GRALLOC_USAGE_SW_READ_OFTEN \<noteq> GRALLOC_USAGE_SW_READ_OFTEN"
    "usage (example_handle 0x2) AND GRALLOC_USAGE_HW_FB = 0"
    "usage (example_handle 0x2) AND GRALLOC_USAGE_HW_TEXTURE = 0"
    by (simp_all add: example_handle_def const_defs)
  have l: "gralloc_gbm_bo_lock (fixed_backend 1000 7 0 (0, 0, 0))
        (example_state \<lparr>bo = 7, map_data = NULL, lock_count = 0, locked_for = 0\<rparr>
          [Bo_create 9 64 64 GBM_FORMAT_ABGR8888 16])
        (Some (example_handle 0x2)) 0x800 0 0 64 64 0
      = Some (0, 0,
          example_state \<lparr>bo = 7, map_data = NULL, lock_count = 1, locked_for = 0x800\<rparr>
            [Bo_create 9 64 64 GBM_FORMAT_ABGR8888 16])"
    unfolding example_lock by (simp add: example_eval)
  from b u l show ?thesis
    by (simp add: example_create)
qed

text \<open>
  C2 (as amended). For every buffer object that is already locked (lock count above
  0), reached through a valid descriptor: a lock request whose usage bits are not all
  in the accumulated mask fails with \<open>-EINVAL\<close> and changes nothing. A request whose
  usage is a subset of the accumulated mask and passes the permission check succeeds
  and increments the lock count when the accumulated mask has no CPU intent; when the
  mask has a CPU intent and the object is mapped, the request fails with \<open>-EINVAL\<close>,
  since \<open>gbm_map\<close> refuses a second mapping.
\<close>

theorem nested_lock_compatibility:
  assumes "gralloc_gbm_handle handle = Some gh"
    and "gralloc_gbm_bo_from_handle be handle = p"
    and "deref st p = Some b"
    and "0 <s lock_count b"
  shows "(locked_for b AND u \<noteq> u
            \<longrightarrow> gralloc_gbm_bo_lock be st handle u x y w h addr = Some (- EINVAL, addr, st))
       \<and> (locked_for b AND u = u \<and> lock_permitted (usage gh) u \<and> \<not> cpu_intent (locked_for b)
            \<longrightarrow> gralloc_gbm_bo_lock be st handle u x y w h addr
                = Some (0, addr, st\<lparr>heap := (heap st)(p \<mapsto> b\<lparr>lock_count := lock_count b + 1\<rparr>)\<rparr>))
       \<and> (locked_for b AND u = u \<and> lock_permitted (usage gh) u \<and> cpu_intent (locked_for b)
            \<and> map_data b \<noteq> NULL
            \<longrightarrow> gralloc_gbm_bo_lock be st handle u x y w h addr = Some (- EINVAL, addr, st))"
proof -
  from assms(4) have nz: "lock_count b \<noteq> 0"
    by auto
  have sub: "u OR locked_for b = locked_for b" if "locked_for b AND u = u"
    using that by (metis or_subset_request or.commute)
  have one: "locked_for b AND u \<noteq> u
      \<longrightarrow> gralloc_gbm_bo_lock be st handle u x y w h addr = Some (- EINVAL, addr, st)"
    unfolding lock_resolved [OF assms(1,2,3)] using nz by simp
  have two: "locked_for b AND u = u \<and> lock_permitted (usage gh) u \<and> \<not> cpu_intent (locked_for b)
      \<longrightarrow> gralloc_gbm_bo_lock be st handle u x y w h addr
          = Some (0, addr, st\<lparr>heap := (heap st)(p \<mapsto> b\<lparr>lock_count := lock_count b + 1\<rparr>)\<rparr>)"
    unfolding lock_resolved [OF assms(1,2,3)] by (simp add: sub)
  have three: "locked_for b AND u = u \<and> lock_permitted (usage gh) u \<and> cpu_intent (locked_for b)
        \<and> map_data b \<noteq> NULL
      \<longrightarrow> gralloc_gbm_bo_lock be st handle u x y w h addr = Some (- EINVAL, addr, st)"
    unfolding lock_resolved [OF assms(1,2,3)] by (simp add: sub)
  from one two three show ?thesis
    by blast
qed

theorem nested_lock_compatibility_witness:
  "0 <s lock_count \<lparr>bo = 7, map_data = NULL, lock_count = 1, locked_for = 0x200\<rparr>
   \<and> locked_for \<lparr>bo = 7, map_data = NULL, lock_count = 1, locked_for = 0x200\<rparr> AND 0x100 \<noteq> 0x100
   \<and> gralloc_gbm_bo_lock (fixed_backend 1000 7 0 (0, 0, 0))
        (example_state \<lparr>bo = 7, map_data = NULL, lock_count = 1, locked_for = 0x200\<rparr> [])
        (Some (example_handle 0x300)) 0x100 0 0 64 64 0
      = Some (- EINVAL, 0, example_state \<lparr>bo = 7, map_data = NULL, lock_count = 1, locked_for = 0x200\<rparr> [])
   \<and> lock_permitted (usage (example_handle 0x300)) 0x200
   \<and> \<not> cpu_intent (locked_for \<lparr>bo = 7, map_data = NULL, lock_count = 1, locked_for = 0x200\<rparr>)
   \<and> gralloc_gbm_bo_lock (fixed_backend 1000 7 0 (0, 0, 0))
        (example_state \<lparr>bo = 7, map_data = NULL, lock_count = 1, locked_for = 0x200\<rparr> [])
        (Some (example_handle 0x300)) 0x200 0 0 64 64 0
      = Some (0, 0, example_state \<lparr>bo = 7, map_data = NULL, lock_count = 2, locked_for = 0x200\<rparr> [])
   \<and> 0 <s lock_count \<lparr>bo = 7, map_data = 0x2000, lock_count = 1, locked_for = 0x30\<rparr>
   \<and> lock_permitted (usage (example_handle 0x30)) 0x30
   \<and> cpu_intent (locked_for \<lparr>bo = 7, map_data = 0x2000, lock_count = 1, locked_for = 0x30\<rparr>)
   \<and> gralloc_gbm_bo_lock (fixed_backend 1000 7 0 (0, 0, 0))
        (example_state \<lparr>bo = 7, map_data = 0x2000, lock_count = 1, locked_for = 0x30\<rparr> [])
        (Some (example_handle 0x30)) 0x30 0 0 64 64 0
      = Some (- EINVAL, 0, example_state \<lparr>bo = 7, map_data = 0x2000, lock_count = 1, locked_for = 0x30\<rparr> [])"
proof -
  let ?be = "fixed_backend 1000 7 0 (0, 0, 0)"
  let ?a = "\<lparr>bo = 7, map_data = NULL, lock_count = 1, locked_for = 0x200\<rparr>"
  let ?b = "\<lparr>bo = 7, map_data = 0x2000, lock_count = 1, locked_for = 0x30\<rparr>"
  have v: "gralloc_gbm_handle (Some (example_handle u)) = Some (example_handle u)"
    and p: "gralloc_gbm_bo_from_handle ?be (Some (example_handle u)) = 16"
    and d: "deref (example_state c []) 16 = Some c" for u c
    by (rule example_resolves)+
  have ca: "0 <s lock_count ?a" and cb: "0 <s lock_count ?b"
    by (simp_all add: word_sless_alt)
  have f: "locked_for ?a AND 0x100 \<noteq> 0x100"
    "lock_permitted (usage (example_handle 0x300)) 0x200"
    "\<not> cpu_intent (locked_for ?a)"
    "locked_for ?a AND 0x200 = 0x200"
    "lock_permitted (usage (example_handle 0x30)) 0x30"
    "cpu_intent (locked_for ?b)"
    "locked_for ?b AND 0x30 = 0x30"
    "map_data ?b \<noteq> NULL"
    by (simp_all add: lock_permitted_def cpu_intent_def example_handle_def const_defs)
  have s: "(example_state ?a [])\<lparr>heap := (heap (example_state ?a []))(16 \<mapsto>
              ?a\<lparr>lock_count := lock_count ?a + 1\<rparr>)\<rparr>
           = example_state \<lparr>bo = 7, map_data = NULL, lock_count = 2, locked_for = 0x200\<rparr> []"
    by (simp add: example_state_def)
  from nested_lock_compatibility [where u = "0x100" and x = 0 and y = 0 and w = 64 and h = 64 and addr = 0,
      OF v [of "0x300"] p [of "0x300"] d [of ?a] ca] f
  have one: "gralloc_gbm_bo_lock ?be (example_state ?a []) (Some (example_handle 0x300)) 0x100 0 0 64 64 0
      = Some (- EINVAL, 0, example_state ?a [])"
    by blast
  from nested_lock_compatibility [where u = "0x200" and x = 0 and y = 0 and w = 64 and h = 64 and addr = 0,
      OF v [of "0x300"] p [of "0x300"] d [of ?a] ca] f
  have two: "gralloc_gbm_bo_lock ?be (example_state ?a []) (Some (example_handle 0x300)) 0x200 0 0 64 64 0
      = Some (0, 0, example_state \<lparr>bo = 7, map_data = NULL, lock_count = 2, locked_for = 0x200\<rparr> [])"
    unfolding s by blast
  from nested_lock_compatibility [where u = "0x30" and x = 0 and y = 0 and w = 64 and h = 64 and addr = 0,
      OF v [of "0x30"] p [of "0x30"] d [of ?b] cb] f
  have three: "gralloc_gbm_bo_lock ?be (example_state ?b []) (Some (example_handle 0x30)) 0x30 0 0 64 64 0
      = Some (- EINVAL, 0, example_state ?b [])"
    by blast
  from ca cb f one two three show ?thesis
    by blast
qed

text \<open>
  The claim as stated fails for CPU locks: a buffer created for software writes is
  locked for software writes, which maps it; the same request again is a subset of the
  accumulated mask, and it returns \<open>-EINVAL\<close> with the lock count still 1.
\<close>

theorem nested_cpu_lock_counterexample:
  "gralloc_gbm_bo_create (fixed_backend 1000 7 0 (0x4000, 256, 0x2000)) initial_state 9 64 64
       HAL_PIXEL_FORMAT_RGBA_8888 0x30
     = (Some (example_handle 0x30),
        example_state \<lparr>bo = 7, map_data = NULL, lock_count = 0, locked_for = 0\<rparr>
          [Bo_create 9 64 64 GBM_FORMAT_ABGR8888 16])
   \<and> gralloc_gbm_bo_lock (fixed_backend 1000 7 0 (0x4000, 256, 0x2000))
        (example_state \<lparr>bo = 7, map_data = NULL, lock_count = 0, locked_for = 0\<rparr>
          [Bo_create 9 64 64 GBM_FORMAT_ABGR8888 16])
        (Some (example_handle 0x30)) 0x30 0 0 64 64 0
      = Some (0, 0x4000,
          example_state \<lparr>bo = 7, map_data = 0x2000, lock_count = 1, locked_for = 0x30\<rparr>
            [Bo_create 9 64 64 GBM_FORMAT_ABGR8888 16, Bo_map 7 0 0 64 64 3])
   \<and> (0x30 :: int32) AND 0x30 = 0x30
   \<and> gralloc_gbm_bo_lock (fixed_backend 1000 7 0 (0x4000, 256, 0x2000))
        (example_state \<lparr>bo = 7, map_data = 0x2000, lock_count = 1, locked_for = 0x30\<rparr>
          [Bo_create 9 64 64 GBM_FORMAT_ABGR8888 16, Bo_map 7 0 0 64 64 3])
        (Some (example_handle 0x30)) 0x30 0 0 64 64 0
      = Some (- EINVAL, 0,
          example_state \<lparr>bo = 7, map_data = 0x2000, lock_count = 1, locked_for = 0x30\<rparr>
            [Bo_create 9 64 64 GBM_FORMAT_ABGR8888 16, Bo_map 7 0 0 64 64 3])"
proof -
  have b: "get_pipe_bind 0x30 = 16"
    by (simp add: get_pipe_bind_def const_defs)
  have l1: "gralloc_gbm_bo_lock (fixed_backend 1000 7 0 (0x4000, 256, 0x2000))
        (example_state \<lparr>bo = 7, map_data = NULL, lock_count = 0, locked_for = 0\<rparr>
          [Bo_create 9 64 64 GBM_FORMAT_ABGR8888 16])
        (Some (example_handle 0x30)) 0x30 0 0 64 64 0
      = Some (0, 0x4000,
          example_state \<lparr>bo = 7, map_data = 0x2000, lock_count = 1, locked_for = 0x30\<rparr>
            [Bo_create 9 64 64 GBM_FORMAT_ABGR8888 16, Bo_map 7 0 0 64 64 3])"
    unfolding example_lock by (simp add: example_eval)
  have l2: "gralloc_gbm_bo_lock (fixed_backend 1000 7 0 (0x4000, 256, 0x2000))
        (example_state \<lparr>bo = 7, map_data = 0x2000, lock_count = 1, locked_for = 0x30\<rparr>
          [Bo_create 9 64 64 GBM_FORMAT_ABGR8888 16, Bo_map 7 0 0 64 64 3])
        (Some (example_handle 0x30)) 0x30 0 0 64 64 0
      = Some (- EINVAL, 0,
          example_state \<lparr>bo = 7, map_data = 0x2000, lock_count = 1, locked_for = 0x30\<rparr>
            [Bo_create 9 64 64 GBM_FORMAT_ABGR8888 16, Bo_map 7 0 0 64 64 3])"
    unfolding example_lock by (simp add: example_eval)
  from b l1 l2 show ?thesis
    by (simp add: example_create)
qed

text \<open>
  C7 (as amended). For every lock call on a resolvable buffer whose combined usage mask
  (the request merged with the accumulated mask) has no CPU intent: the call returns
  without any backend call, and if the request passes the permission check and the
  compatibility check (the object is unlocked, or the request is within the accumulated
  mask), it succeeds, increments the lock count, merges the request into the mask and
  leaves the address cell as it was.
\<close>

theorem lock_without_cpu_intent:
  assumes "gralloc_gbm_handle handle = Some gh"
    and "gralloc_gbm_bo_from_handle be handle = p"
    and "deref st p = Some b"
    and "\<not> cpu_intent (u OR locked_for b)"
  shows "(\<exists>r a st1. gralloc_gbm_bo_lock be st handle u x y w h addr = Some (r, a, st1)
            \<and> trace st1 = trace st)
       \<and> (lock_permitted (usage gh) u \<and> (lock_count b = 0 \<or> locked_for b AND u = u)
            \<longrightarrow> gralloc_gbm_bo_lock be st handle u x y w h addr
                = Some (0, addr, st\<lparr>heap := (heap st)(p \<mapsto>
                    b\<lparr>lock_count := lock_count b + 1, locked_for := locked_for b OR u\<rparr>)\<rparr>))"
  unfolding lock_resolved [OF assms(1,2,3)]
  using assms(4) by (auto simp: or_absorb_request)

theorem lock_without_cpu_intent_witness:
  "gralloc_gbm_handle (Some (example_handle 0x200)) = Some (example_handle 0x200)
   \<and> gralloc_gbm_bo_from_handle (fixed_backend 1000 7 0 (0, 0, 0)) (Some (example_handle 0x200)) = 16
   \<and> deref (example_state \<lparr>bo = 7, map_data = NULL, lock_count = 0, locked_for = 0\<rparr> []) 16
       = Some \<lparr>bo = 7, map_data = NULL, lock_count = 0, locked_for = 0\<rparr>
   \<and> \<not> cpu_intent (0x200 OR locked_for \<lparr>bo = 7, map_data = NULL, lock_count = 0, locked_for = 0\<rparr>)
   \<and> lock_permitted (usage (example_handle 0x200)) 0x200
   \<and> gralloc_gbm_bo_lock (fixed_backend 1000 7 0 (0, 0, 0))
        (example_state \<lparr>bo = 7, map_data = NULL, lock_count = 0, locked_for = 0\<rparr> [])
        (Some (example_handle 0x200)) 0x200 0 0 64 64 0
      = Some (0, 0, example_state \<lparr>bo = 7, map_data = NULL, lock_count = 1, locked_for = 0x200\<rparr> [])"
proof -
  let ?be = "fixed_backend 1000 7 0 (0, 0, 0)"
  let ?b = "\<lparr>bo = 7, map_data = NULL, lock_count = 0, locked_for = 0\<rparr>"
  have v: "gralloc_gbm_handle (Some (example_handle 0x200)) = Some (example_handle 0x200)"
    and p: "gralloc_gbm_bo_from_handle ?be (Some (example_handle 0x200)) = 16"
    and d: "deref (example_state ?b []) 16 = Some ?b"
    by (rule example_resolves)+
  have c: "\<not> cpu_intent (0x200 OR locked_for ?b)"
    by (simp add: cpu_intent_def const_defs)
  have q: "lock_permitted (usage (example_handle 0x200)) 0x200"
    by (simp add: lock_permitted_def example_handle_def)
  have s: "(example_state ?b [])\<lparr>heap := (heap (example_state ?b []))(16 \<mapsto>
              ?b\<lparr>lock_count := lock_count ?b + 1, locked_for := locked_for ?b OR 0x200\<rparr>)\<rparr>
           = example_state \<lparr>bo = 7, map_data = NULL, lock_count = 1, locked_for = 0x200\<rparr> []"
    by (simp add: example_state_def)
  from lock_without_cpu_intent [OF v p d c, of 0 0 64 64 0] q
  have "gralloc_gbm_bo_lock ?be (example_state ?b []) (Some (example_handle 0x200)) 0x200 0 0 64 64 0
      = Some (0, 0, example_state \<lparr>bo = 7, map_data = NULL, lock_count = 1, locked_for = 0x200\<rparr> [])"
    unfolding s by simp
  with v p d c q show ?thesis
    by blast
qed

text \<open>
  The claim as stated fails when the permission check rejects the request: a buffer
  created for hardware rendering only (usage 0x200) and locked with usage 0x800 has no
  CPU intent, and the call returns \<open>-EINVAL\<close> with the lock count still 0.
\<close>

theorem lock_without_cpu_intent_unpermitted_counterexample:
  "gralloc_gbm_bo_create (fixed_backend 1000 7 0 (0, 0, 0)) initial_state 9 64 64
       HAL_PIXEL_FORMAT_RGBA_8888 0x200
     = (Some (example_handle 0x200),
        example_state \<lparr>bo = 7, map_data = NULL, lock_count = 0, locked_for = 0\<rparr>
          [Bo_create 9 64 64 GBM_FORMAT_ABGR8888 4])
   \<and> gralloc_gbm_bo_from_handle (fixed_backend 1000 7 0 (0, 0, 0)) (Some (example_handle 0x200)) = 16
   \<and> \<not> cpu_intent (0x800 OR 0)
   \<and> gralloc_gbm_bo_lock (fixed_backend 1000 7 0 (0, 0, 0))
        (example_state \<lparr>bo = 7, map_data = NULL, lock_count = 0, locked_for = 0\<rparr>
          [Bo_create 9 64 64 GBM_FORMAT_ABGR8888 4])
        (Some (example_handle 0x200)) 0x800 0 0 64 64 0
      = Some (- EINVAL, 0,
          example_state \<lparr>bo = 7, map_data = NULL, lock_count = 0, locked_for = 0\<rparr>
            [Bo_create 9 64 64 GBM_FORMAT_ABGR8888 4])"
proof -
  have b: "get_pipe_bind 0x200 = 4"
    by (simp add: get_pipe_bind_def const_defs)
  have c: "\<not> cpu_intent (0x800 OR 0)"
    by (simp add: cpu_intent_def const_defs)
  have l: "gralloc_gbm_bo_lock (fixed_backend 1000 7 0 (0, 0, 0))
        (example_state \<lparr>bo = 7, map_data = NULL, lock_count = 0, locked_for = 0\<rparr>
          [Bo_create 9 64 64 GBM_FORMAT_ABGR8888 4])
        (Some (example_handle 0x200)) 0x800 0 0 64 64 0
      = Some (- EINVAL, 0,
          example_state \<lparr>bo = 7, map_data = NULL, lock_count = 0, locked_for = 0\<rparr>
            [Bo_create 9 64 64 GBM_FORMAT_ABGR8888 4])"
    unfolding example_lock by (simp add: example_eval)
  from b c l show ?thesis
    by (simp add: example_create example_resolves)
qed

text \<open>
  C9. Whenever a lock call returns an error (permission failure, compatibility failure,
  double mapping or backend map failure), the lock count and the accumulated usage mask
  of every buffer object are exactly as they were before the call.
\<close>

theorem lock_error_keeps_bookkeeping:
  assumes "gralloc_gbm_bo_lock be st handle u x y w h addr = Some (err, a, st1)"
    and "err \<noteq> 0"
  shows "map_option lock_count (heap st1 q) = map_option lock_count (heap st q)
       \<and> map_option locked_for (heap st1 q) = map_option locked_for (heap st q)"
proof (cases "gralloc_gbm_bo_from_handle be handle = NULL")
  case True
  with assms show ?thesis by (simp add: lock_unresolved)
next
  case False
  then obtain gh where gh: "gralloc_gbm_handle handle = Some gh"
    using from_handle_valid by blast
  from assms(1) False obtain b where b: "deref st (gralloc_gbm_bo_from_handle be handle) = Some b"
    using lock_defined by blast
  then have hp: "heap st (gralloc_gbm_bo_from_handle be handle) = Some b"
    by (simp add: deref_def split: if_splits)
  show ?thesis
    using assms hp unfolding lock_resolved [OF gh refl b]
    by (auto split: if_splits prod.splits)
qed

theorem lock_error_keeps_bookkeeping_witness:
  "gralloc_gbm_bo_lock (fixed_backend 1000 7 0 (0, 256, 0))
        (example_state \<lparr>bo = 7, map_data = NULL, lock_count = 0, locked_for = 0\<rparr> [])
        (Some (example_handle 0x30)) 0x30 0 0 64 64 0
      = Some (- ENOMEM, 0,
          example_state \<lparr>bo = 7, map_data = NULL, lock_count = 0, locked_for = 0\<rparr>
            [Bo_map 7 0 0 64 64 3])
   \<and> - ENOMEM \<noteq> 0
   \<and> map_option lock_count
        (heap (example_state \<lparr>bo = 7, map_data = NULL, lock_count = 0, locked_for = 0\<rparr>
                 [Bo_map 7 0 0 64 64 3]) 16) = Some 0
   \<and> map_option locked_for
        (heap (example_state \<lparr>bo = 7, map_data = NULL, lock_count = 0, locked_for = 0\<rparr>
                 [Bo_map 7 0 0 64 64 3]) 16) = Some 0"
proof -
  have l: "gralloc_gbm_bo_lock (fixed_backend 1000 7 0 (0, 256, 0))
        (example_state \<lparr>bo = 7, map_data = NULL, lock_count = 0, locked_for = 0\<rparr> [])
        (Some (example_handle 0x30)) 0x30 0 0 64 64 0
      = Some (- ENOMEM, 0,
          example_state \<lparr>bo = 7, map_data = NULL, lock_count = 0, locked_for = 0\<rparr>
            [Bo_map 7 0 0 64 64 3])"
    unfolding example_lock by (simp add: example_eval)
  have e: "- ENOMEM \<noteq> 0"
    by (simp add: ENOMEM_def)
  show ?thesis
    using l e lock_error_keeps_bookkeeping [OF l e, of 16]
    by (simp add: example_state_def)
qed

section \<open>What one call does to the objects\<close>

lemma lock_heap_effect:
  assumes gh: "gralloc_gbm_handle handle = Some gh"
    and p: "gralloc_gbm_bo_from_handle be handle = p"
    and b: "deref st p = Some b"
    and l: "gralloc_gbm_bo_lock be st handle u x y w h addr = Some (r, a, st1)"
  shows "heap st1 = heap st \<or> (\<exists>b1. heap st1 = (heap st)(p \<mapsto> b1) \<and> lock_effect be b b1)"
proof (cases "\<not> lock_permitted (usage gh) u \<or> (lock_count b \<noteq> 0 \<and> locked_for b AND u \<noteq> u)")
  case True
  with l show ?thesis
    unfolding lock_resolved [OF gh p b] by (auto split: if_splits)
next
  case False
  then have compat: "lock_count b = 0 \<or> locked_for b AND u = u"
    by blast
  show ?thesis
  proof (cases "cpu_intent (u OR locked_for b)")
    case nocpu: False
    let ?b1 = "b\<lparr>lock_count := lock_count b + 1, locked_for := locked_for b OR (u OR locked_for b)\<rparr>"
    from l False nocpu have "heap st1 = (heap st)(p \<mapsto> ?b1)"
      unfolding lock_resolved [OF gh p b] by (auto split: if_splits)
    moreover from compat nocpu have "lock_effect be b ?b1"
      unfolding lock_effect_def by auto
    ultimately show ?thesis by blast
  next
    case cpu: True
    show ?thesis
    proof (cases "map_data b = NULL")
      case mapped: False
      with l False cpu show ?thesis
        unfolding lock_resolved [OF gh p b] by (auto split: if_splits)
    next
      case unmapped: True
      let ?x = "fst (gbm_map_size (format gh) x y w h)"
      let ?y = "snd (gbm_map_size (format gh) x y w h)"
      let ?f = "if (u OR locked_for b) AND GRALLOC_USAGE_SW_WRITE_MASK \<noteq> 0
                then GBM_BO_TRANSFER_READ OR GBM_BO_TRANSFER_WRITE else GBM_BO_TRANSFER_READ"
      obtain a1 strd md where m: "gbm_bo_map be (trace st) (bo b) 0 0 ?x ?y ?f NULL = (a1, strd, md)"
        by (cases "gbm_bo_map be (trace st) (bo b) 0 0 ?x ?y ?f NULL") auto
      let ?b1 = "if a1 = NULL then b\<lparr>map_data := md\<rparr>
                 else b\<lparr>map_data := md, lock_count := lock_count b + 1,
                         locked_for := locked_for b OR (u OR locked_for b)\<rparr>"
      from l False cpu unmapped m have "heap st1 = (heap st)(p \<mapsto> ?b1)"
        unfolding lock_resolved [OF gh p b] by (auto split: if_splits)
      moreover from compat cpu unmapped m have "lock_effect be b ?b1"
        unfolding lock_effect_def by (intro exI [of _ u] exI [of _ "trace st"] exI [of _ ?x]
            exI [of _ ?y] exI [of _ ?f] exI [of _ a1] exI [of _ strd] exI [of _ md]) simp
      ultimately show ?thesis by blast
    qed
  qed
qed

lemma unlock_heap_effect:
  assumes p: "gralloc_gbm_bo_from_handle be handle = p"
    and b: "deref st p = Some b"
    and l: "gralloc_gbm_bo_unlock be st handle = Some (r, st1)"
  shows "heap st1 = heap st \<or> (\<exists>b1. heap st1 = (heap st)(p \<mapsto> b1) \<and> unlock_effect b b1)"
proof (cases "lock_count b = 0")
  case True
  with l show ?thesis
    unfolding unlock_resolved [OF p b] by simp
next
  case False
  let ?b1 = "b\<lparr>map_data := (if cpu_intent (locked_for b) then NULL else map_data b),
              lock_count := lock_count b - 1,
              locked_for := (if lock_count b - 1 = 0 then 0 else locked_for b)\<rparr>"
  from l False have "heap st1 = (heap st)(p \<mapsto> ?b1)"
    unfolding unlock_resolved [OF p b] by (auto split: if_splits)
  moreover from False have "unlock_effect b ?b1"
    by (simp add: unlock_effect_def)
  ultimately show ?thesis by blast
qed

text \<open>
  After any call, an object of the store is fresh, or as it was, or the object a lock
  or an unlock made of the one that was at its address.
\<close>

lemma api_step_objects:
  assumes "api_step be st c = Some st1"
    and "heap st1 q = Some b1"
  shows "(\<exists>x. b1 = \<lparr>bo = x, map_data = NULL, lock_count = 0, locked_for = 0\<rparr>)
       \<or> heap st q = Some b1
       \<or> (\<exists>b. heap st q = Some b \<and> lock_effect be b b1)
       \<or> (\<exists>b. heap st q = Some b \<and> unlock_effect b b1)"
proof (cases c)
  case (Create gbm w h fmt u)
  with assms show ?thesis
    by (auto simp: gralloc_gbm_bo_create_def gbm_alloc_def new_bo_def delete_bo_def
        gralloc_gbm_get_pid_def Let_def split: prod.splits if_splits)
next
  case (Register handle gbm)
  with assms show ?thesis
    by (auto simp: gralloc_gbm_handle_register_def validate_handle_def gbm_import_def new_bo_def
        delete_bo_def gralloc_gbm_get_pid_def Let_def split: prod.splits if_splits option.splits)
next
  case (Unregister handle)
  with assms show ?thesis
    by (auto simp: gralloc_gbm_handle_unregister_def validate_handle_def gbm_free_def
        delete_bo_def gralloc_gbm_get_pid_def Let_def split: prod.splits if_splits option.splits)
next
  case (Lock handle u x y w h addr)
  show ?thesis
  proof (cases "gralloc_gbm_bo_from_handle be handle = NULL")
    case True
    with assms Lock show ?thesis
      by (auto simp: lock_unresolved)
  next
    case False
    then obtain gh where gh: "gralloc_gbm_handle handle = Some gh"
      using from_handle_valid by blast
    from assms(1) Lock obtain r where r: "gralloc_gbm_bo_lock be st handle u x y w h addr = Some r"
      by auto
    with False obtain b where b: "deref st (gralloc_gbm_bo_from_handle be handle) = Some b"
      using lock_defined by blast
    then have hp: "heap st (gralloc_gbm_bo_from_handle be handle) = Some b"
      by (simp add: deref_def split: if_splits)
    obtain e a st2 where r3: "r = (e, a, st2)"
      by (cases r) auto
    with assms(1) Lock r have st2: "st2 = st1"
      by simp
    from lock_heap_effect [OF gh refl b r [unfolded r3]] st2 assms(2) hp show ?thesis
      by (auto split: if_splits)
  qed
next
  case (Unlock handle)
  show ?thesis
  proof (cases "gralloc_gbm_bo_from_handle be handle = NULL")
    case True
    with assms Unlock show ?thesis
      by (auto simp: gralloc_gbm_bo_unlock_def)
  next
    case False
    from assms(1) Unlock obtain r where r: "gralloc_gbm_bo_unlock be st handle = Some r"
      by auto
    with False obtain b where b: "deref st (gralloc_gbm_bo_from_handle be handle) = Some b"
      by (auto simp: gralloc_gbm_bo_unlock_def Let_def split: option.splits)
    then have hp: "heap st (gralloc_gbm_bo_from_handle be handle) = Some b"
      by (simp add: deref_def split: if_splits)
    obtain e st2 where r2: "r = (e, st2)"
      by (cases r) auto
    with assms(1) Unlock r have st2: "st2 = st1"
      by simp
    from unlock_heap_effect [OF refl b r [unfolded r2]] st2 assms(2) hp show ?thesis
      by (auto split: if_splits)
  qed
qed

text \<open>Unfolding everything evaluates a concrete run.\<close>

lemmas op_defs =
  gralloc_gbm_bo_create_def create_bo_handle_def gbm_alloc_def gbm_alloc_size_def new_bo_def
  delete_bo_def get_gbm_format_def get_pipe_bind_def gralloc_gbm_get_pid_def initial_state_def
  gralloc_gbm_bo_lock_def gbm_map_def lock_commit_def deref_def
  gralloc_gbm_bo_from_handle_def gralloc_gbm_handle_def gralloc_gbm_bo_unlock_def gbm_unmap_def
  validate_handle_def gbm_import_def gbm_import_size_def gralloc_gbm_handle_register_def
  gralloc_gbm_handle_unregister_def gbm_free_def

lemma fixed_backend_contract:
  "a \<noteq> NULL \<Longrightarrow> md \<noteq> NULL \<Longrightarrow> map_contract (fixed_backend pid c i (a, strd, md))"
  by (simp add: map_contract_def fixed_backend_def)

section \<open>The mapping invariant\<close>

lemma cpu_intent_or: "cpu_intent (u OR l) \<longleftrightarrow> cpu_intent u \<or> cpu_intent l"
  by (simp add: cpu_intent_def bit.conj_disj_distrib2 or_eq_0_iff)

lemma cpu_intent_zero: "\<not> cpu_intent 0"
  by (simp add: cpu_intent_def)

lemma fresh_object_invariant:
  "mapping_invariant \<lparr>bo = x, map_data = NULL, lock_count = 0, locked_for = 0\<rparr>
   \<and> cpu_lock_single \<lparr>bo = x, map_data = NULL, lock_count = 0, locked_for = 0\<rparr>"
  by (simp add: mapping_invariant_def cpu_lock_single_def)

lemma lock_effect_invariant:
  assumes c: "map_contract be"
    and i: "mapping_invariant b" and s: "cpu_lock_single b"
    and e: "lock_effect be b b1"
  shows "mapping_invariant b1 \<and> cpu_lock_single b1"
proof -
  from e obtain u tr x y f a strd md where
    compat: "lock_count b = 0 \<or> locked_for b AND u = u"
    and eff: "if cpu_intent (u OR locked_for b)
         then map_data b = NULL \<and> gbm_bo_map be tr (bo b) 0 0 x y f NULL = (a, strd, md)
              \<and> b1 = (if a = NULL then b\<lparr>map_data := md\<rparr>
                       else b\<lparr>map_data := md, lock_count := lock_count b + 1,
                               locked_for := locked_for b OR (u OR locked_for b)\<rparr>)
         else b1 = b\<lparr>lock_count := lock_count b + 1,
                      locked_for := locked_for b OR (u OR locked_for b)\<rparr>"
    unfolding lock_effect_def by blast
  show ?thesis
  proof (cases "cpu_intent (u OR locked_for b)")
    case False
    then have nl: "\<not> cpu_intent (locked_for b)" and nu: "\<not> cpu_intent u"
      by (simp_all add: cpu_intent_or)
    from i nl have "map_data b = NULL"
      by (simp add: mapping_invariant_def)
    with eff False nl nu show ?thesis
      by (simp add: mapping_invariant_def cpu_lock_single_def cpu_intent_or)
  next
    case True
    with eff have um: "map_data b = NULL"
      and m: "gbm_bo_map be tr (bo b) 0 0 x y f NULL = (a, strd, md)"
      and b1: "b1 = (if a = NULL then b\<lparr>map_data := md\<rparr>
                       else b\<lparr>map_data := md, lock_count := lock_count b + 1,
                               locked_for := locked_for b OR (u OR locked_for b)\<rparr>)"
      by simp_all
    from c m have md: "(a = NULL \<longrightarrow> md = NULL) \<and> (a \<noteq> NULL \<longrightarrow> md \<noteq> NULL)"
      unfolding map_contract_def by (metis (mono_tags, lifting) case_prod_conv)
    show ?thesis
    proof (cases "a = NULL")
      case True
      with md b1 um have "b1 = b"
        by simp
      with i s show ?thesis by simp
    next
      case False
      have z: "lock_count b = 0"
      proof (rule ccontr)
        assume nz: "lock_count b \<noteq> 0"
        with compat have "locked_for b AND u = u" by simp
        then have "u OR locked_for b = locked_for b"
          by (metis or_subset_request or.commute)
        with True have cl: "cpu_intent (locked_for b)" by simp
        with s nz have "lock_count b = 1"
          by (simp add: cpu_lock_single_def)
        with i cl have "map_data b \<noteq> NULL"
          by (simp add: mapping_invariant_def word_sless_alt)
        with um show False by simp
      qed
      from False md b1 z True show ?thesis
        by (simp add: mapping_invariant_def cpu_lock_single_def cpu_intent_or word_sless_alt)
    qed
  qed
qed

lemma unlock_effect_invariant:
  assumes i: "mapping_invariant b" and s: "cpu_lock_single b"
    and e: "unlock_effect b b1"
  shows "mapping_invariant b1 \<and> cpu_lock_single b1"
proof (cases "cpu_intent (locked_for b)")
  case True
  with e s have "lock_count b = 1"
    by (simp add: unlock_effect_def cpu_lock_single_def)
  with e True show ?thesis
    by (simp add: unlock_effect_def mapping_invariant_def cpu_lock_single_def cpu_intent_zero)
next
  case False
  with i have "map_data b = NULL"
    by (simp add: mapping_invariant_def)
  with e False show ?thesis
    by (simp add: unlock_effect_def mapping_invariant_def cpu_lock_single_def cpu_intent_zero)
qed

lemma api_step_invariant:
  assumes c: "map_contract be"
    and i: "\<forall>q b. heap st q = Some b \<longrightarrow> mapping_invariant b \<and> cpu_lock_single b"
    and st: "api_step be st c = Some st1"
  shows "\<forall>q b. heap st1 q = Some b \<longrightarrow> mapping_invariant b \<and> cpu_lock_single b"
proof (intro allI impI)
  fix q b1
  assume "heap st1 q = Some b1"
  from api_step_objects [OF st this] i show "mapping_invariant b1 \<and> cpu_lock_single b1"
    using fresh_object_invariant lock_effect_invariant [OF c] unlock_effect_invariant
    by blast
qed

lemma api_run_invariant:
  assumes "map_contract be"
    and "\<forall>q b. heap st q = Some b \<longrightarrow> mapping_invariant b \<and> cpu_lock_single b"
    and "api_run be st calls = Some st1"
  shows "\<forall>q b. heap st1 q = Some b \<longrightarrow> mapping_invariant b \<and> cpu_lock_single b"
  using assms
proof (induction calls arbitrary: st)
  case Nil
  then show ?case by simp
next
  case (Cons c cs)
  from Cons.prems(3) obtain st2 where s: "api_step be st c = Some st2"
    and r: "api_run be st2 cs = Some st1"
    by (auto split: option.splits)
  from api_step_invariant [OF Cons.prems(1,2) s] Cons.IH [OF Cons.prems(1) _ r]
  show ?case by blast
qed

text \<open>
  C4. With a backend that keeps the contract of \<open>gbm_bo_map\<close>, after every call of a
  run of the module from the start of the process (create, register, unregister, lock
  and unlock calls in any order, on any descriptors), so in particular after every lock
  or unlock, every buffer object satisfies the invariant: its \<open>map_data\<close> is non-null if
  and only if its lock count is greater than 0 and its accumulated usage mask contains a
  CPU read or write intent.
\<close>

theorem mapped_iff_cpu_locked:
  assumes "map_contract be"
    and "api_run be initial_state calls = Some st"
    and "heap st q = Some b"
  shows "mapping_invariant b"
proof -
  have "\<forall>q b. heap initial_state q = Some b \<longrightarrow> mapping_invariant b \<and> cpu_lock_single b"
    by (simp add: initial_state_def)
  from api_run_invariant [OF assms(1) this assms(2)] assms(3) show ?thesis
    by blast
qed

theorem mapped_iff_cpu_locked_witness:
  "map_contract (fixed_backend 1000 7 0 (0x4000, 256, 0x2000))
   \<and> api_run (fixed_backend 1000 7 0 (0x4000, 256, 0x2000)) initial_state
        [Create 9 64 64 HAL_PIXEL_FORMAT_RGBA_8888 0x30,
         Lock (Some (example_handle 0x30)) 0x30 0 0 64 64 0]
       = Some (example_state \<lparr>bo = 7, map_data = 0x2000, lock_count = 1, locked_for = 0x30\<rparr>
                [Bo_create 9 64 64 GBM_FORMAT_ABGR8888 16, Bo_map 7 0 0 64 64 3])
   \<and> heap (example_state \<lparr>bo = 7, map_data = 0x2000, lock_count = 1, locked_for = 0x30\<rparr>
            [Bo_create 9 64 64 GBM_FORMAT_ABGR8888 16, Bo_map 7 0 0 64 64 3]) 16
       = Some \<lparr>bo = 7, map_data = 0x2000, lock_count = 1, locked_for = 0x30\<rparr>
   \<and> mapping_invariant \<lparr>bo = 7, map_data = 0x2000, lock_count = 1, locked_for = 0x30\<rparr>"
proof -
  have c: "map_contract (fixed_backend 1000 7 0 (0x4000, 256, 0x2000))"
    by (simp add: fixed_backend_contract)
  have r: "api_run (fixed_backend 1000 7 0 (0x4000, 256, 0x2000)) initial_state
        [Create 9 64 64 HAL_PIXEL_FORMAT_RGBA_8888 0x30,
         Lock (Some (example_handle 0x30)) 0x30 0 0 64 64 0]
       = Some (example_state \<lparr>bo = 7, map_data = 0x2000, lock_count = 1, locked_for = 0x30\<rparr>
                [Bo_create 9 64 64 GBM_FORMAT_ABGR8888 16, Bo_map 7 0 0 64 64 3])"
    by (simp add: op_defs example_eval Let_def)
  have h: "heap (example_state \<lparr>bo = 7, map_data = 0x2000, lock_count = 1, locked_for = 0x30\<rparr>
            [Bo_create 9 64 64 GBM_FORMAT_ABGR8888 16, Bo_map 7 0 0 64 64 3]) 16
       = Some \<lparr>bo = 7, map_data = 0x2000, lock_count = 1, locked_for = 0x30\<rparr>"
    by (simp add: example_state_def)
  from c r h mapped_iff_cpu_locked [OF c r h] show ?thesis
    by blast
qed

section \<open>The lock count\<close>

lemma sint_succ:
  assumes "sint (c::int32) < 2147483647"
  shows "sint (c + 1) = sint c + 1"
proof -
  have lo: "- 2147483648 \<le> sint c"
    using sint_greater_eq [of c] by simp
  have "sint (c + 1) = signed_take_bit 31 (sint c + 1)"
    by (simp add: sint_word_ariths)
  also have "\<dots> = sint c + 1"
    using assms lo by (simp add: signed_take_bit_int_eq_self)
  finally show ?thesis .
qed

lemma sint_pred:
  assumes "0 \<le> sint (c::int32)"
  shows "sint (c - 1) = sint c - 1"
proof -
  have hi: "sint c < 2147483648"
    using sint_less [of c] by simp
  have "sint (c - 1) = signed_take_bit 31 (sint c - 1)"
    by (simp add: sint_word_ariths)
  also have "\<dots> = sint c - 1"
    using assms hi by (simp add: signed_take_bit_int_eq_self)
  finally show ?thesis .
qed

lemma lock_effect_count:
  assumes "lock_effect be b b1"
    and "0 \<le> sint (lock_count b)" and "sint (lock_count b) \<le> n" and "n < 2147483647"
  shows "0 \<le> sint (lock_count b1) \<and> sint (lock_count b1) \<le> n + 1"
proof -
  from assms have "sint (lock_count b + 1) = sint (lock_count b) + 1"
    by (intro sint_succ) simp
  moreover from assms(1) have "lock_count b1 = lock_count b \<or> lock_count b1 = lock_count b + 1"
    unfolding lock_effect_def by (auto split: if_splits)
  ultimately show ?thesis
    using assms(2,3) by auto
qed

lemma unlock_effect_count:
  assumes "unlock_effect b b1"
    and "0 \<le> sint (lock_count b)" and "sint (lock_count b) \<le> n"
  shows "0 \<le> sint (lock_count b1) \<and> sint (lock_count b1) \<le> n + 1"
proof -
  from assms(1) have nz: "lock_count b \<noteq> 0" and c1: "lock_count b1 = lock_count b - 1"
    by (simp_all add: unlock_effect_def)
  from nz have "sint (lock_count b) \<noteq> 0"
    by (simp add: signed_eq_0_iff)
  with assms(2) have "1 \<le> sint (lock_count b)"
    by simp
  with c1 sint_pred [OF assms(2)] assms(3) show ?thesis
    by simp
qed

lemma api_step_count:
  assumes i: "\<forall>q b. heap st q = Some b \<longrightarrow> 0 \<le> sint (lock_count b) \<and> sint (lock_count b) \<le> n"
    and n: "0 \<le> n" "n < 2147483647"
    and st: "api_step be st c = Some st1"
  shows "\<forall>q b. heap st1 q = Some b \<longrightarrow> 0 \<le> sint (lock_count b) \<and> sint (lock_count b) \<le> n + 1"
proof (intro allI impI)
  fix q b1
  assume "heap st1 q = Some b1"
  from api_step_objects [OF st this]
  consider (fresh) x where "b1 = \<lparr>bo = x, map_data = NULL, lock_count = 0, locked_for = 0\<rparr>"
    | (same) "heap st q = Some b1"
    | (lock) b where "heap st q = Some b" "lock_effect be b b1"
    | (unlock) b where "heap st q = Some b" "unlock_effect b b1"
    by blast
  then show "0 \<le> sint (lock_count b1) \<and> sint (lock_count b1) \<le> n + 1"
  proof cases
    case fresh
    with n show ?thesis by simp
  next
    case same
    with i show ?thesis by fastforce
  next
    case lock
    with i lock_effect_count [OF lock(2) _ _ n(2)] show ?thesis by blast
  next
    case unlock
    with i unlock_effect_count [OF unlock(2)] show ?thesis by blast
  qed
qed

lemma api_run_count:
  assumes "\<forall>q b. heap st q = Some b \<longrightarrow> 0 \<le> sint (lock_count b) \<and> sint (lock_count b) \<le> n"
    and "0 \<le> n" and "n + int (length calls) < 2147483648"
    and "api_run be st calls = Some st1"
  shows "\<forall>q b. heap st1 q = Some b \<longrightarrow> 0 \<le> sint (lock_count b)"
  using assms
proof (induction calls arbitrary: st n)
  case Nil
  then show ?case by simp
next
  case (Cons c cs)
  from Cons.prems(4) obtain st2 where s: "api_step be st c = Some st2"
    and r: "api_run be st2 cs = Some st1"
    by (auto split: option.splits)
  from Cons.prems(3) have n: "n < 2147483647" and n1: "n + 1 + int (length cs) < 2147483648"
    by simp_all
  from Cons.prems(2) have "0 \<le> n + 1" by simp
  from Cons.IH [OF api_step_count [OF Cons.prems(1,2) n s] this n1 r]
  show ?case .
qed

text \<open>
  C5. For every resolvable buffer object whose lock count is 0, unlock returns success
  and leaves the state as it is: no unmap call is made and the count is not decremented.
  The lock count of every object stays non-negative under every run of the module from
  the start of the process that is shorter than \<open>2^31\<close> calls; from that number of
  nested locks on, the increment of the C \<open>int\<close> overflows and the source has no
  defined behaviour.
\<close>

theorem unlock_at_zero_is_noop:
  "(gralloc_gbm_bo_from_handle be handle = p \<and> deref st p = Some b \<and> lock_count b = 0
      \<longrightarrow> gralloc_gbm_bo_unlock be st handle = Some (0, st))
   \<and> (length calls < 2147483648 \<and> api_run be initial_state calls = Some st1
        \<and> heap st1 q = Some b1
      \<longrightarrow> 0 \<le>s lock_count b1)"
proof -
  have one: "gralloc_gbm_bo_unlock be st handle = Some (0, st)"
    if "gralloc_gbm_bo_from_handle be handle = p" "deref st p = Some b" "lock_count b = 0"
    using that unlock_resolved [OF that(1,2)] by simp
  have two: "0 \<le>s lock_count b1"
    if "length calls < 2147483648" "api_run be initial_state calls = Some st1" "heap st1 q = Some b1"
  proof -
    have "\<forall>q b. heap initial_state q = Some b \<longrightarrow> 0 \<le> sint (lock_count b) \<and> sint (lock_count b) \<le> 0"
      by (simp add: initial_state_def)
    from api_run_count [OF this _ _ that(2)] that(1,3) show ?thesis
      by (simp add: word_sle_eq)
  qed
  from one two show ?thesis by blast
qed

theorem unlock_at_zero_is_noop_witness:
  "gralloc_gbm_bo_from_handle (fixed_backend 1000 7 0 (0, 0, 0)) (Some (example_handle 0x200)) = 16
   \<and> deref (example_state \<lparr>bo = 7, map_data = NULL, lock_count = 0, locked_for = 0\<rparr>
              [Bo_create 9 64 64 GBM_FORMAT_ABGR8888 4]) 16
       = Some \<lparr>bo = 7, map_data = NULL, lock_count = 0, locked_for = 0\<rparr>
   \<and> lock_count \<lparr>bo = 7, map_data = NULL, lock_count = 0, locked_for = 0\<rparr> = 0
   \<and> gralloc_gbm_bo_unlock (fixed_backend 1000 7 0 (0, 0, 0))
        (example_state \<lparr>bo = 7, map_data = NULL, lock_count = 0, locked_for = 0\<rparr>
           [Bo_create 9 64 64 GBM_FORMAT_ABGR8888 4])
        (Some (example_handle 0x200))
       = Some (0, example_state \<lparr>bo = 7, map_data = NULL, lock_count = 0, locked_for = 0\<rparr>
                    [Bo_create 9 64 64 GBM_FORMAT_ABGR8888 4])
   \<and> length [Create 9 64 64 HAL_PIXEL_FORMAT_RGBA_8888 0x200,
              Lock (Some (example_handle 0x200)) 0x200 0 0 64 64 0,
              Unlock (Some (example_handle 0x200)),
              Unlock (Some (example_handle 0x200))] < 2147483648
   \<and> api_run (fixed_backend 1000 7 0 (0, 0, 0)) initial_state
        [Create 9 64 64 HAL_PIXEL_FORMAT_RGBA_8888 0x200,
         Lock (Some (example_handle 0x200)) 0x200 0 0 64 64 0,
         Unlock (Some (example_handle 0x200)),
         Unlock (Some (example_handle 0x200))]
       = Some (example_state \<lparr>bo = 7, map_data = NULL, lock_count = 0, locked_for = 0\<rparr>
                [Bo_create 9 64 64 GBM_FORMAT_ABGR8888 4])
   \<and> heap (example_state \<lparr>bo = 7, map_data = NULL, lock_count = 0, locked_for = 0\<rparr>
            [Bo_create 9 64 64 GBM_FORMAT_ABGR8888 4]) 16
       = Some \<lparr>bo = 7, map_data = NULL, lock_count = 0, locked_for = 0\<rparr>
   \<and> 0 \<le>s lock_count \<lparr>bo = 7, map_data = NULL, lock_count = 0, locked_for = 0\<rparr>"
proof -
  let ?be = "fixed_backend 1000 7 0 (0, 0, 0)"
  let ?b = "\<lparr>bo = 7, map_data = NULL, lock_count = 0, locked_for = 0\<rparr>"
  let ?st = "example_state ?b [Bo_create 9 64 64 GBM_FORMAT_ABGR8888 4]"
  let ?calls = "[Create 9 64 64 HAL_PIXEL_FORMAT_RGBA_8888 0x200,
         Lock (Some (example_handle 0x200)) 0x200 0 0 64 64 0,
         Unlock (Some (example_handle 0x200)),
         Unlock (Some (example_handle 0x200))]"
  have p: "gralloc_gbm_bo_from_handle ?be (Some (example_handle 0x200)) = 16"
    and d: "deref ?st 16 = Some ?b"
    by (rule example_resolves)+
  have z: "lock_count ?b = 0"
    by simp
  have n: "length ?calls < 2147483648"
    by simp
  have r: "api_run ?be initial_state ?calls = Some ?st"
    by (simp add: op_defs example_eval Let_def)
  have h: "heap ?st 16 = Some ?b"
    by (simp add: example_state_def)
  from unlock_at_zero_is_noop [of ?be "Some (example_handle 0x200)" 16 ?st ?b ?calls ?st 16 ?b]
    p d z n r h
  show ?thesis
    by blast
qed

section \<open>Properties of the handle registry\<close>

text \<open>The memoised pid: asking for it changes at most the static variable, and only once.\<close>

lemma get_pid_state:
  "snd (gralloc_gbm_get_pid be st) = st\<lparr>gralloc_gbm_pid := fst (gralloc_gbm_get_pid be st)\<rparr>"
  by (simp add: gralloc_gbm_get_pid_def Let_def)

lemma get_pid_settled:
  assumes "gralloc_gbm_pid st2 = fst (gralloc_gbm_get_pid be st)"
  shows "gralloc_gbm_get_pid be st2 = (gralloc_gbm_pid st2, st2)"
  using assms by (auto simp: gralloc_gbm_get_pid_def Let_def split: if_splits)

lemma pid_update_same: "st\<lparr>gralloc_gbm_pid := x\<rparr> = st \<longleftrightarrow> x = gralloc_gbm_pid st"
  by (cases st) auto

lemma settled_iff:
  "gralloc_gbm_get_pid be st = (gralloc_gbm_pid st, st)
   \<longleftrightarrow> (gralloc_gbm_pid st = 0 \<longrightarrow> getpid be = 0)"
  by (auto simp: gralloc_gbm_get_pid_def Let_def pid_update_same)

lemma settled_after_get_pid:
  "gralloc_gbm_pid st2 = fst (gralloc_gbm_get_pid be st)
   \<Longrightarrow> gralloc_gbm_pid st2 = 0 \<longrightarrow> getpid be = 0"
  by (auto simp: gralloc_gbm_get_pid_def Let_def split: if_splits)

lemma get_pid_keeps:
  "gralloc_gbm_pid st = 0 \<longrightarrow> getpid be = 0
   \<Longrightarrow> gralloc_gbm_pid (snd (gralloc_gbm_get_pid be st)) = gralloc_gbm_pid st"
  by (auto simp: gralloc_gbm_get_pid_def Let_def)

text \<open>The three ways through \<open>validate_handle\<close> for a valid descriptor.\<close>

lemma gbm_import_pid: "gralloc_gbm_pid (snd (gbm_import be st gbm h)) = gralloc_gbm_pid st"
  by (simp add: gbm_import_def new_bo_def delete_bo_def Let_def split: prod.splits)

lemma gbm_import_invalid_fd:
  "prime_fd h <s 0 \<Longrightarrow> gbm_import be st gbm h = (NULL, st)"
  by (simp add: gbm_import_def)

lemma validate_handle_owner:
  assumes "gralloc_gbm_handle handle = Some h"
    and "data_owner h = fst (gralloc_gbm_get_pid be st)"
  shows "validate_handle be st handle gbm
         = (data h, handle, st\<lparr>gralloc_gbm_pid := fst (gralloc_gbm_get_pid be st)\<rparr>)"
  using assms get_pid_state [of be st]
  by (simp add: validate_handle_def case_prod_beta)

lemma validate_handle_check_only:
  assumes "gralloc_gbm_handle handle = Some h"
    and "data_owner h \<noteq> fst (gralloc_gbm_get_pid be st)"
  shows "validate_handle be st handle NULL
         = (NULL, handle, st\<lparr>gralloc_gbm_pid := fst (gralloc_gbm_get_pid be st)\<rparr>)"
  using assms get_pid_state [of be st]
  by (simp add: validate_handle_def case_prod_beta)

lemma validate_handle_import:
  assumes "gralloc_gbm_handle handle = Some h"
    and "data_owner h \<noteq> fst (gralloc_gbm_get_pid be st)"
    and "gbm \<noteq> NULL"
  shows "validate_handle be st handle gbm
         = (fst (gbm_import be (snd (gralloc_gbm_get_pid be st)) gbm h),
            Some (h\<lparr>data_owner := fst (gralloc_gbm_get_pid be st),
                    data := fst (gbm_import be (snd (gralloc_gbm_get_pid be st)) gbm h)\<rparr>),
            snd (gbm_import be (snd (gralloc_gbm_get_pid be st)) gbm h))"
proof -
  let ?pid = "fst (gralloc_gbm_get_pid be st)"
  let ?st1 = "snd (gralloc_gbm_get_pid be st)"
  let ?st2 = "snd (gbm_import be ?st1 gbm h)"
  have "gralloc_gbm_pid ?st2 = ?pid"
    by (simp add: gbm_import_pid get_pid_state)
  then have "gralloc_gbm_get_pid be ?st2 = (?pid, ?st2)"
    using get_pid_settled [of ?st2 be st] by simp
  with assms show ?thesis
    by (simp add: validate_handle_def case_prod_beta)
qed

text \<open>
  C8. For every valid descriptor whose recorded owner equals the current process
  identity (the memoised pid for \<open>validate_handle\<close>, \<open>getpid\<close> for
  \<open>gralloc_gbm_bo_from_handle\<close>), resolving returns the descriptor's data reference and
  leaves the descriptor, the objects and the list of backend calls as they are: the
  import primitive is not invoked. For every valid descriptor whose owner differs,
  resolving with no backend context returns null, again without a backend call.
\<close>

theorem resolve_owner_or_none:
  assumes "gralloc_gbm_handle handle = Some h"
  shows "(data_owner h = fst (gralloc_gbm_get_pid be st)
            \<longrightarrow> validate_handle be st handle gbm
                = (data h, handle, st\<lparr>gralloc_gbm_pid := fst (gralloc_gbm_get_pid be st)\<rparr>))
       \<and> (data_owner h \<noteq> fst (gralloc_gbm_get_pid be st)
            \<longrightarrow> validate_handle be st handle NULL
                = (NULL, handle, st\<lparr>gralloc_gbm_pid := fst (gralloc_gbm_get_pid be st)\<rparr>))
       \<and> (data_owner h = getpid be \<longrightarrow> gralloc_gbm_bo_from_handle be handle = data h)
       \<and> (data_owner h \<noteq> getpid be \<longrightarrow> gralloc_gbm_bo_from_handle be handle = NULL)"
  using assms validate_handle_owner [OF assms] validate_handle_check_only [OF assms]
  by (simp add: gralloc_gbm_bo_from_handle_def)

theorem resolve_owner_or_none_witness:
  "gralloc_gbm_handle (Some (example_handle 0x200)) = Some (example_handle 0x200)
   \<and> data_owner (example_handle 0x200)
       = fst (gralloc_gbm_get_pid (fixed_backend 1000 7 0 (0, 0, 0))
                (example_state \<lparr>bo = 7, map_data = NULL, lock_count = 0, locked_for = 0\<rparr> []))
   \<and> validate_handle (fixed_backend 1000 7 0 (0, 0, 0))
        (example_state \<lparr>bo = 7, map_data = NULL, lock_count = 0, locked_for = 0\<rparr> [])
        (Some (example_handle 0x200)) 9
       = (16, Some (example_handle 0x200),
          example_state \<lparr>bo = 7, map_data = NULL, lock_count = 0, locked_for = 0\<rparr> [])
   \<and> data_owner (example_handle 0x200) = getpid (fixed_backend 1000 7 0 (0, 0, 0))
   \<and> gralloc_gbm_bo_from_handle (fixed_backend 1000 7 0 (0, 0, 0)) (Some (example_handle 0x200)) = 16
   \<and> gralloc_gbm_handle (Some ((example_handle 0x200)\<lparr>data_owner := 555\<rparr>))
       = Some ((example_handle 0x200)\<lparr>data_owner := 555\<rparr>)
   \<and> data_owner ((example_handle 0x200)\<lparr>data_owner := 555\<rparr>)
       \<noteq> fst (gralloc_gbm_get_pid (fixed_backend 1000 7 0 (0, 0, 0))
                (example_state \<lparr>bo = 7, map_data = NULL, lock_count = 0, locked_for = 0\<rparr> []))
   \<and> validate_handle (fixed_backend 1000 7 0 (0, 0, 0))
        (example_state \<lparr>bo = 7, map_data = NULL, lock_count = 0, locked_for = 0\<rparr> [])
        (Some ((example_handle 0x200)\<lparr>data_owner := 555\<rparr>)) NULL
       = (NULL, Some ((example_handle 0x200)\<lparr>data_owner := 555\<rparr>),
          example_state \<lparr>bo = 7, map_data = NULL, lock_count = 0, locked_for = 0\<rparr> [])
   \<and> data_owner ((example_handle 0x200)\<lparr>data_owner := 555\<rparr>)
       \<noteq> getpid (fixed_backend 1000 7 0 (0, 0, 0))
   \<and> gralloc_gbm_bo_from_handle (fixed_backend 1000 7 0 (0, 0, 0))
        (Some ((example_handle 0x200)\<lparr>data_owner := 555\<rparr>)) = NULL"
proof -
  let ?be = "fixed_backend 1000 7 0 (0, 0, 0)"
  let ?st = "example_state \<lparr>bo = 7, map_data = NULL, lock_count = 0, locked_for = 0\<rparr> []"
  let ?h = "example_handle 0x200"
  let ?f = "(example_handle 0x200)\<lparr>data_owner := 555\<rparr>"
  have v: "gralloc_gbm_handle (Some ?h) = Some ?h" "gralloc_gbm_handle (Some ?f) = Some ?f"
    by (simp_all add: gralloc_gbm_handle_def example_handle_def)
  have pid: "fst (gralloc_gbm_get_pid ?be ?st) = 1000" "getpid ?be = 1000"
    by (simp_all add: gralloc_gbm_get_pid_def example_state_def fixed_backend_def)
  have o: "data_owner ?h = 1000" "data_owner ?f = 555" "data ?h = 16"
    by (simp_all add: example_handle_def)
  have st: "?st\<lparr>gralloc_gbm_pid := 1000\<rparr> = ?st"
    by (simp add: example_state_def)
  from resolve_owner_or_none [OF v(1), of ?be ?st 9] resolve_owner_or_none [OF v(2), of ?be ?st 9]
    v pid o st
  show ?thesis
    by simp
qed

text \<open>
  C3 (as amended). If register is called with a backend context on a valid descriptor
  that the current process does not own and whose shareable memory reference is
  invalid (negative file descriptor), the call returns the failure status \<open>-EINVAL\<close>
  without any backend call, and it sets the descriptor's owner to the current process
  identifier, with a null data reference.
\<close>

theorem register_invalid_fd:
  assumes "gralloc_gbm_handle handle = Some h"
    and "prime_fd h <s 0"
    and "data_owner h \<noteq> fst (gralloc_gbm_get_pid be st)"
    and "gbm \<noteq> NULL"
  shows "gralloc_gbm_handle_register be st handle gbm
         = (- EINVAL,
            Some (h\<lparr>data_owner := fst (gralloc_gbm_get_pid be st), data := NULL\<rparr>),
            st\<lparr>gralloc_gbm_pid := fst (gralloc_gbm_get_pid be st)\<rparr>)"
  using validate_handle_import [OF assms(1,3,4)] assms(2) get_pid_state [of be st]
  by (simp add: gralloc_gbm_handle_register_def gbm_import_invalid_fd)

theorem register_invalid_fd_witness:
  "gralloc_gbm_handle (Some (create_bo_handle 64 64 HAL_PIXEL_FORMAT_RGBA_8888 0x200))
       = Some (create_bo_handle 64 64 HAL_PIXEL_FORMAT_RGBA_8888 0x200)
   \<and> prime_fd (create_bo_handle 64 64 HAL_PIXEL_FORMAT_RGBA_8888 0x200) <s 0
   \<and> data_owner (create_bo_handle 64 64 HAL_PIXEL_FORMAT_RGBA_8888 0x200)
       \<noteq> fst (gralloc_gbm_get_pid (fixed_backend 1000 7 8 (0, 0, 0)) initial_state)
   \<and> (9 :: ptr) \<noteq> NULL
   \<and> gralloc_gbm_handle_register (fixed_backend 1000 7 8 (0, 0, 0)) initial_state
        (Some (create_bo_handle 64 64 HAL_PIXEL_FORMAT_RGBA_8888 0x200)) 9
       = (- EINVAL,
          Some ((create_bo_handle 64 64 HAL_PIXEL_FORMAT_RGBA_8888 0x200)
                  \<lparr>data_owner := 1000, data := NULL\<rparr>),
          initial_state\<lparr>gralloc_gbm_pid := 1000\<rparr>)"
proof -
  let ?be = "fixed_backend 1000 7 8 (0, 0, 0)"
  let ?h = "create_bo_handle 64 64 HAL_PIXEL_FORMAT_RGBA_8888 0x200"
  have v: "gralloc_gbm_handle (Some ?h) = Some ?h"
    by (simp add: gralloc_gbm_handle_def create_bo_handle_def)
  have fd: "prime_fd ?h <s 0"
    by (simp add: create_bo_handle_def word_sless_alt)
  have pid: "fst (gralloc_gbm_get_pid ?be initial_state) = 1000"
    by (simp add: gralloc_gbm_get_pid_def initial_state_def fixed_backend_def)
  have o: "data_owner ?h \<noteq> fst (gralloc_gbm_get_pid ?be initial_state)"
    by (simp add: pid create_bo_handle_def)
  have g: "(9 :: ptr) \<noteq> NULL"
    by simp
  from register_invalid_fd [OF v fd o g] v fd o g pid show ?thesis
    by simp
qed

text \<open>
  The claim as stated fails on the owner field: a descriptor that arrives with owner 0
  and file descriptor -1 is registered in process 1000; the call fails, and the owner
  field of the descriptor is 1000 afterwards.
\<close>

theorem register_invalid_fd_sets_owner_counterexample:
  "prime_fd ((example_handle 0x200)\<lparr>prime_fd := - 1, data_owner := 0, data := NULL\<rparr>) <s 0
   \<and> data_owner ((example_handle 0x200)\<lparr>prime_fd := - 1, data_owner := 0, data := NULL\<rparr>) = 0
   \<and> gralloc_gbm_handle_register (fixed_backend 1000 7 8 (0, 0, 0))
        (example_state \<lparr>bo = 7, map_data = NULL, lock_count = 0, locked_for = 0\<rparr> [])
        (Some ((example_handle 0x200)\<lparr>prime_fd := - 1, data_owner := 0, data := NULL\<rparr>)) 9
       = (- EINVAL,
          Some ((example_handle 0x200)\<lparr>prime_fd := - 1, data_owner := 1000, data := NULL\<rparr>),
          example_state \<lparr>bo = 7, map_data = NULL, lock_count = 0, locked_for = 0\<rparr> [])
   \<and> data_owner ((example_handle 0x200)\<lparr>prime_fd := - 1, data_owner := 1000, data := NULL\<rparr>)
       = 1000"
  by (simp add: op_defs example_eval Let_def word_sless_alt)

text \<open>No call of the module changes the memoised pid once it is set.\<close>

lemma gbm_alloc_pid: "gralloc_gbm_pid (snd (snd (gbm_alloc be st gbm h))) = gralloc_gbm_pid st"
  by (simp add: gbm_alloc_def new_bo_def delete_bo_def Let_def case_prod_beta)

lemma validate_handle_pid:
  assumes "gralloc_gbm_pid st = 0 \<longrightarrow> getpid be = 0"
  shows "gralloc_gbm_pid (snd (snd (validate_handle be st handle gbm))) = gralloc_gbm_pid st"
  using assms
  by (auto simp: validate_handle_def case_prod_beta Let_def get_pid_keeps gbm_import_pid
      split: option.splits)

lemma gbm_free_pid: "gbm_free st p = Some st1 \<Longrightarrow> gralloc_gbm_pid st1 = gralloc_gbm_pid st"
  by (auto simp: gbm_free_def delete_bo_def split: option.splits)

lemma lock_pid:
  "gralloc_gbm_bo_lock be st handle u x y w h addr = Some (r, a, st1)
   \<Longrightarrow> gralloc_gbm_pid st1 = gralloc_gbm_pid st"
  by (auto simp: gralloc_gbm_bo_lock_def gbm_map_def lock_commit_def Let_def
      split: option.splits if_splits prod.splits)

lemma unlock_pid:
  "gralloc_gbm_bo_unlock be st handle = Some (r, st1)
   \<Longrightarrow> gralloc_gbm_pid st1 = gralloc_gbm_pid st"
  by (auto simp: gralloc_gbm_bo_unlock_def gbm_unmap_def Let_def
      split: option.splits if_splits)

lemma api_step_pid:
  assumes s: "gralloc_gbm_pid st = 0 \<longrightarrow> getpid be = 0"
    and st: "api_step be st c = Some st1"
  shows "gralloc_gbm_pid st1 = gralloc_gbm_pid st"
proof (cases c)
  case (Create gbm w h fmt u)
  with st s show ?thesis
    by (auto simp: gralloc_gbm_bo_create_def case_prod_beta Let_def get_pid_keeps gbm_alloc_pid)
next
  case (Register handle gbm)
  with st validate_handle_pid [OF s, of handle gbm] show ?thesis
    by (auto simp: gralloc_gbm_handle_register_def case_prod_beta)
next
  case (Unregister handle)
  with st validate_handle_pid [OF s, of handle NULL] show ?thesis
    by (auto simp: gralloc_gbm_handle_unregister_def case_prod_beta Let_def
        split: if_splits option.splits dest: gbm_free_pid)
next
  case (Lock handle u x y w h addr)
  with st show ?thesis
    by (auto dest: lock_pid)
next
  case (Unlock handle)
  with st show ?thesis
    by (auto dest: unlock_pid)
qed

lemma api_run_pid:
  assumes "gralloc_gbm_pid st = 0 \<longrightarrow> getpid be = 0"
    and "api_run be st calls = Some st1"
  shows "gralloc_gbm_pid st1 = gralloc_gbm_pid st"
  using assms
proof (induction calls arbitrary: st)
  case Nil
  then show ?case by simp
next
  case (Cons c cs)
  from Cons.prems(2) obtain st2 where s: "api_step be st c = Some st2"
    and r: "api_run be st2 cs = Some st1"
    by (auto split: option.splits)
  from api_step_pid [OF Cons.prems(1) s] Cons.prems(1) Cons.IH [OF _ r] show ?case
    by simp
qed

lemma remembered_failure:
  assumes m: "magic h = GRALLOC_GBM_HANDLE_MAGIC"
    and o: "data_owner h = gralloc_gbm_pid st" and d: "data h = NULL"
    and s: "gralloc_gbm_pid st = 0 \<longrightarrow> getpid be = 0"
  shows "validate_handle be st (Some h) g = (NULL, Some h, st)"
    and "gralloc_gbm_handle_register be st (Some h) g = (- EINVAL, Some h, st)"
    and "gralloc_gbm_handle_unregister be st (Some h) = Some (- EINVAL, Some h, st)"
proof -
  from s have g: "gralloc_gbm_get_pid be st = (gralloc_gbm_pid st, st)"
    by (simp add: settled_iff)
  from m have v: "gralloc_gbm_handle (Some h) = Some h"
    by (simp add: gralloc_gbm_handle_def)
  show r: "validate_handle be st (Some h) g = (NULL, Some h, st)" for g
    using v g o d by (simp add: validate_handle_def)
  then show "gralloc_gbm_handle_register be st (Some h) g = (- EINVAL, Some h, st)"
    by (simp add: gralloc_gbm_handle_register_def)
  from r [of NULL] show "gralloc_gbm_handle_unregister be st (Some h) = Some (- EINVAL, Some h, st)"
    by (simp add: gralloc_gbm_handle_unregister_def)
qed

text \<open>
  C10. If resolve with a backend context is invoked on a valid foreign descriptor and
  the import fails (returns null), the call returns null and leaves the descriptor
  with the current process as owner and a null data reference. From then on, after any
  further run of the module, every resolve (with or without a backend context),
  register and unregister of that descriptor in this process returns failure and
  leaves the descriptor and the whole state, and with it the list of backend calls, as
  they are: the import primitive is not invoked again.
\<close>

theorem failed_import_is_remembered:
  assumes v: "gralloc_gbm_handle handle = Some h"
    and f: "data_owner h \<noteq> fst (gralloc_gbm_get_pid be st)"
    and g: "gbm \<noteq> NULL"
    and i: "fst (gbm_import be (snd (gralloc_gbm_get_pid be st)) gbm h) = NULL"
    and h1: "h1 = h\<lparr>data_owner := fst (gralloc_gbm_get_pid be st), data := NULL\<rparr>"
    and st1: "st1 = snd (gbm_import be (snd (gralloc_gbm_get_pid be st)) gbm h)"
  shows "validate_handle be st handle gbm = (NULL, Some h1, st1)
       \<and> (\<forall>calls st2 g2. api_run be st1 calls = Some st2 \<longrightarrow>
             validate_handle be st2 (Some h1) g2 = (NULL, Some h1, st2)
           \<and> gralloc_gbm_handle_register be st2 (Some h1) g2 = (- EINVAL, Some h1, st2)
           \<and> gralloc_gbm_handle_unregister be st2 (Some h1) = Some (- EINVAL, Some h1, st2))"
proof -
  let ?pid = "fst (gralloc_gbm_get_pid be st)"
  have p1: "gralloc_gbm_pid st1 = ?pid"
    by (simp add: st1 gbm_import_pid get_pid_state)
  then have s1: "gralloc_gbm_pid st1 = 0 \<longrightarrow> getpid be = 0"
    by (rule settled_after_get_pid)
  from v have m: "magic h1 = GRALLOC_GBM_HANDLE_MAGIC"
    by (auto simp: h1 gralloc_gbm_handle_def split: option.splits if_splits)
  have first: "validate_handle be st handle gbm = (NULL, Some h1, st1)"
    using validate_handle_import [OF v f g] i by (simp add: h1 st1)
  have later: "validate_handle be st2 (Some h1) g2 = (NULL, Some h1, st2)
           \<and> gralloc_gbm_handle_register be st2 (Some h1) g2 = (- EINVAL, Some h1, st2)
           \<and> gralloc_gbm_handle_unregister be st2 (Some h1) = Some (- EINVAL, Some h1, st2)"
    if r: "api_run be st1 calls = Some st2" for calls st2 g2
  proof -
    from api_run_pid [OF s1 r] p1 have p2: "gralloc_gbm_pid st2 = ?pid"
      by simp
    then have s2: "gralloc_gbm_pid st2 = 0 \<longrightarrow> getpid be = 0"
      by (rule settled_after_get_pid)
    have o: "data_owner h1 = gralloc_gbm_pid st2" and d: "data h1 = NULL"
      by (simp_all add: h1 p2)
    from remembered_failure [OF m o d s2] show ?thesis
      by simp
  qed
  from first later show ?thesis
    by blast
qed

theorem failed_import_is_remembered_witness:
  "gralloc_gbm_handle (Some ((example_handle 0x200)\<lparr>data_owner := 555, data := 77\<rparr>))
       = Some ((example_handle 0x200)\<lparr>data_owner := 555, data := 77\<rparr>)
   \<and> data_owner ((example_handle 0x200)\<lparr>data_owner := 555, data := 77\<rparr>)
       \<noteq> fst (gralloc_gbm_get_pid (fixed_backend 1000 7 0 (0, 0, 0)) initial_state)
   \<and> (9 :: ptr) \<noteq> NULL
   \<and> fst (gbm_import (fixed_backend 1000 7 0 (0, 0, 0))
             (snd (gralloc_gbm_get_pid (fixed_backend 1000 7 0 (0, 0, 0)) initial_state)) 9
             ((example_handle 0x200)\<lparr>data_owner := 555, data := 77\<rparr>)) = NULL
   \<and> validate_handle (fixed_backend 1000 7 0 (0, 0, 0)) initial_state
        (Some ((example_handle 0x200)\<lparr>data_owner := 555, data := 77\<rparr>)) 9
       = (NULL, Some ((example_handle 0x200)\<lparr>data_owner := 1000, data := NULL\<rparr>),
          \<lparr>gralloc_gbm_pid = 1000, heap = Map.empty, next_ptr = 17,
            trace = [Bo_import 9 \<lparr>data_width = 64, data_height = 64,
                       data_format = GBM_FORMAT_ABGR8888, data_num_fds = 1, data_fd = 5,
                       data_stride = 256, data_modifier = 0\<rparr>]\<rparr>)
   \<and> api_run (fixed_backend 1000 7 0 (0, 0, 0))
        \<lparr>gralloc_gbm_pid = 1000, heap = Map.empty, next_ptr = 17,
            trace = [Bo_import 9 \<lparr>data_width = 64, data_height = 64,
                       data_format = GBM_FORMAT_ABGR8888, data_num_fds = 1, data_fd = 5,
                       data_stride = 256, data_modifier = 0\<rparr>]\<rparr>
        [Register (Some ((example_handle 0x200)\<lparr>data_owner := 1000, data := NULL\<rparr>)) 9,
         Unregister (Some ((example_handle 0x200)\<lparr>data_owner := 1000, data := NULL\<rparr>))]
       = Some \<lparr>gralloc_gbm_pid = 1000, heap = Map.empty, next_ptr = 17,
            trace = [Bo_import 9 \<lparr>data_width = 64, data_height = 64,
                       data_format = GBM_FORMAT_ABGR8888, data_num_fds = 1, data_fd = 5,
                       data_stride = 256, data_modifier = 0\<rparr>]\<rparr>
   \<and> validate_handle (fixed_backend 1000 7 0 (0, 0, 0))
        \<lparr>gralloc_gbm_pid = 1000, heap = Map.empty, next_ptr = 17,
            trace = [Bo_import 9 \<lparr>data_width = 64, data_height = 64,
                       data_format = GBM_FORMAT_ABGR8888, data_num_fds = 1, data_fd = 5,
                       data_stride = 256, data_modifier = 0\<rparr>]\<rparr>
        (Some ((example_handle 0x200)\<lparr>data_owner := 1000, data := NULL\<rparr>)) 9
       = (NULL, Some ((example_handle 0x200)\<lparr>data_owner := 1000, data := NULL\<rparr>),
          \<lparr>gralloc_gbm_pid = 1000, heap = Map.empty, next_ptr = 17,
            trace = [Bo_import 9 \<lparr>data_width = 64, data_height = 64,
                       data_format = GBM_FORMAT_ABGR8888, data_num_fds = 1, data_fd = 5,
                       data_stride = 256, data_modifier = 0\<rparr>]\<rparr>)
   \<and> gralloc_gbm_handle_register (fixed_backend 1000 7 0 (0, 0, 0))
        \<lparr>gralloc_gbm_pid = 1000, heap = Map.empty, next_ptr = 17,
            trace = [Bo_import 9 \<lparr>data_width = 64, data_height = 64,
                       data_format = GBM_FORMAT_ABGR8888, data_num_fds = 1, data_fd = 5,
                       data_stride = 256, data_modifier = 0\<rparr>]\<rparr>
        (Some ((example_handle 0x200)\<lparr>data_owner := 1000, data := NULL\<rparr>)) 9
       = (- EINVAL, Some ((example_handle 0x200)\<lparr>data_owner := 1000, data := NULL\<rparr>),
          \<lparr>gralloc_gbm_pid = 1000, heap = Map.empty, next_ptr = 17,
            trace = [Bo_import 9 \<lparr>data_width = 64, data_height = 64,
                       data_format = GBM_FORMAT_ABGR8888, data_num_fds = 1, data_fd = 5,
                       data_stride = 256, data_modifier = 0\<rparr>]\<rparr>)
   \<and> gralloc_gbm_handle_unregister (fixed_backend 1000 7 0 (0, 0, 0))
        \<lparr>gralloc_gbm_pid = 1000, heap = Map.empty, next_ptr = 17,
            trace = [Bo_import 9 \<lparr>data_width = 64, data_height = 64,
                       data_format = GBM_FORMAT_ABGR8888, data_num_fds = 1, data_fd = 5,
                       data_stride = 256, data_modifier = 0\<rparr>]\<rparr>
        (Some ((example_handle 0x200)\<lparr>data_owner := 1000, data := NULL\<rparr>))
       = Some (- EINVAL, Some ((example_handle 0x200)\<lparr>data_owner := 1000, data := NULL\<rparr>),
          \<lparr>gralloc_gbm_pid = 1000, heap = Map.empty, next_ptr = 17,
            trace = [Bo_import 9 \<lparr>data_width = 64, data_height = 64,
                       data_format = GBM_FORMAT_ABGR8888, data_num_fds = 1, data_fd = 5,
                       data_stride = 256, data_modifier = 0\<rparr>]\<rparr>)"
proof -
  let ?be = "fixed_backend 1000 7 0 (0, 0, 0)"
  let ?h = "(example_handle 0x200)\<lparr>data_owner := 555, data := 77\<rparr>"
  let ?h1 = "(example_handle 0x200)\<lparr>data_owner := 1000, data := NULL\<rparr>"
  let ?st1 = "\<lparr>gralloc_gbm_pid = 1000, heap = Map.empty, next_ptr = 17,
            trace = [Bo_import 9 \<lparr>data_width = 64, data_height = 64,
                       data_format = GBM_FORMAT_ABGR8888, data_num_fds = 1, data_fd = 5,
                       data_stride = 256, data_modifier = 0\<rparr>]\<rparr>"
  let ?calls = "[Register (Some ?h1) 9, Unregister (Some ?h1)]"
  have v: "gralloc_gbm_handle (Some ?h) = Some ?h"
    by (simp add: gralloc_gbm_handle_def example_handle_def)
  have pid: "fst (gralloc_gbm_get_pid ?be initial_state) = 1000"
    by (simp add: gralloc_gbm_get_pid_def initial_state_def fixed_backend_def)
  have f: "data_owner ?h \<noteq> fst (gralloc_gbm_get_pid ?be initial_state)"
    by (simp add: pid)
  have g: "(9 :: ptr) \<noteq> NULL"
    by simp
  have imp: "gbm_import ?be (snd (gralloc_gbm_get_pid ?be initial_state)) 9 ?h = (NULL, ?st1)"
    by (simp add: op_defs example_eval Let_def word_sless_alt)
  then have i: "fst (gbm_import ?be (snd (gralloc_gbm_get_pid ?be initial_state)) 9 ?h) = NULL"
    by simp
  have h1: "?h1 = ?h\<lparr>data_owner := fst (gralloc_gbm_get_pid ?be initial_state), data := NULL\<rparr>"
    by (simp add: pid)
  have st1: "?st1 = snd (gbm_import ?be (snd (gralloc_gbm_get_pid ?be initial_state)) 9 ?h)"
    by (simp add: imp)
  have r: "api_run ?be ?st1 ?calls = Some ?st1"
    by (simp add: op_defs example_eval Let_def)
  from failed_import_is_remembered [OF v f g i h1 st1] r v f g i show ?thesis
    by blast
qed

end
